theory Spec2Isabelle
  imports Main
begin

section \<open>The syntax tree of the transformer\<close>

text \<open>
  The transformer of \<^verbatim>\<open>src/loader.ts\<close> works on the syntax tree of the TypeScript
  compiler API.  Nodes are objects: the rewriters allocate new nodes that share
  sub-nodes with the old tree, the walker compares nodes by reference
  (\<^verbatim>\<open>expression !== node\<close>) and overwrites fields of a parent node in place.
  The tree is therefore modelled as a heap of nodes: a reference is an address,
  a node holds the references of its children.
\<close>

text \<open>
  Some kinds (\<^verbatim>\<open>ts.SyntaxKind\<close>) of nodes of which the transformer reads no field:
  it looks at their kind and walks their children, and treats all of them
  alike.
\<close>

datatype OtherKind =
    PostfixUnaryExpression
  | ParenthesizedExpression
  | ArrayLiteralExpression
  | ConditionalExpression
  | VariableDeclarationList
  | VariableStatement
  | ExpressionStatement
  | Block
  | NamespaceImport
  | NamedImports
  | ImportSpecifier
  | EndOfFileToken

text \<open>The kinds of the nodes whose fields the transformer reads, and the others.\<close>

datatype SyntaxKind =
    NumericLiteral
  | StringLiteral
  | Identifier
  | BinaryExpression
  | CallExpression
  | PropertyAccessExpression
  | NewExpression
  | PrefixUnaryExpression
  | VariableDeclaration
  | ImportDeclaration
  | ImportClause
  | SourceFile
  | Other OtherKind

text \<open>The kinds of operator tokens (also members of \<^verbatim>\<open>ts.SyntaxKind\<close>).\<close>

datatype Token =
    SlashToken
  | AsteriskToken
  | PlusToken
  | MinusToken
  | PercentToken
  | AsteriskAsteriskToken
  | LessThanToken
  | GreaterThanToken
  | LessThanEqualsToken
  | GreaterThanEqualsToken
  | EqualsEqualsToken
  | EqualsEqualsEqualsToken
  | ExclamationEqualsToken
  | ExclamationEqualsEqualsToken
  | AmpersandAmpersandToken
  | BarBarToken
  | EqualsToken
  | CommaToken
  | PlusPlusToken
  | MinusMinusToken
  | ExclamationToken
  | TildeToken

text \<open>
  The text of an identifier is a JavaScript value.  The parser always stores a
  string; \<^verbatim>\<open>rewriteCallExpression\<close> passes whatever the lookup
  \<^verbatim>\<open>TRIG_FUNCTIONS[method]\<close> returned to \<^verbatim>\<open>ts.createIdentifier\<close>, and that
  lookup can return a member that the object literal inherits from
  \<^verbatim>\<open>Object.prototype\<close>.  \<open>JInherited p\<close> is the value of the inherited property
  named \<open>p\<close>, a function; \<^verbatim>\<open>ts.createIdentifier\<close> checks nothing and stores the
  value it is given.
\<close>

datatype jsval = JString string | JInherited string

type_synonym ref = nat

datatype node =
    NumericLiteralN string
  | StringLiteralN string
  | IdentifierN jsval
  | BinaryExpressionN ref Token ref
  | CallExpressionN ref "ref list"
  | PropertyAccessExpressionN ref ref
  | NewExpressionN ref "ref list"
  | PrefixUnaryExpressionN Token ref
  | VariableDeclarationN ref "ref option"
  | ImportDeclarationN "ref option" ref
  | ImportClauseN "ref option" "ref option"
  | SourceFileN "ref list"
  | OtherN OtherKind "ref list"

text \<open>
  Fields, in the order of the constructors: the text of a literal; the
  \<^verbatim>\<open>escapedText\<close> of an identifier; \<^verbatim>\<open>left\<close>, the kind of \<^verbatim>\<open>operatorToken\<close> and
  \<^verbatim>\<open>right\<close> of a binary expression; \<^verbatim>\<open>expression\<close> and \<^verbatim>\<open>arguments\<close> of a call
  and of a \<^verbatim>\<open>new\<close>; \<^verbatim>\<open>expression\<close> and \<^verbatim>\<open>name\<close> of a property access; \<^verbatim>\<open>operator\<close>
  and \<^verbatim>\<open>operand\<close> of a prefix unary expression; \<^verbatim>\<open>name\<close> and \<^verbatim>\<open>initializer\<close> of a
  variable declaration; \<^verbatim>\<open>importClause\<close> and \<^verbatim>\<open>moduleSpecifier\<close> of an import
  declaration; \<^verbatim>\<open>name\<close> and \<^verbatim>\<open>namedBindings\<close> of an import clause; the
  \<^verbatim>\<open>statements\<close> of a source file.  Every other node is an \<open>OtherN\<close> with its kind
  and its children in the order \<^verbatim>\<open>ts.forEachChild\<close> visits them.  The loader
  parses its input as \<^verbatim>\<open>source.js\<close>, so type arguments and type annotations do
  not occur and are left out.
\<close>

fun kind :: "node \<Rightarrow> SyntaxKind" where
  "kind (NumericLiteralN t) = NumericLiteral"
| "kind (StringLiteralN t) = StringLiteral"
| "kind (IdentifierN t) = Identifier"
| "kind (BinaryExpressionN l tok r) = BinaryExpression"
| "kind (CallExpressionN e args) = CallExpression"
| "kind (PropertyAccessExpressionN e n) = PropertyAccessExpression"
| "kind (NewExpressionN e args) = NewExpression"
| "kind (PrefixUnaryExpressionN tok e) = PrefixUnaryExpression"
| "kind (VariableDeclarationN n i) = VariableDeclaration"
| "kind (ImportDeclarationN c m) = ImportDeclaration"
| "kind (ImportClauseN n b) = ImportClause"
| "kind (SourceFileN ss) = SourceFile"
| "kind (OtherN k cs) = Other k"

subsection \<open>The heap\<close>

type_synonym heap = "node list"

definition lookup :: "heap \<Rightarrow> ref \<Rightarrow> node option" where
  "lookup s r = (if r < length s then Some (s ! r) else None)"

text \<open>A factory function of the compiler API allocates one node at the next free address.\<close>

definition alloc :: "heap \<Rightarrow> node \<Rightarrow> heap \<times> ref" where
  "alloc s n = (s @ [n], length s)"

definition createIdentifier :: "heap \<Rightarrow> jsval \<Rightarrow> heap \<times> ref" where
  "createIdentifier s t = alloc s (IdentifierN t)"

definition createNew :: "heap \<Rightarrow> ref \<Rightarrow> ref list \<Rightarrow> heap \<times> ref" where
  "createNew s e args = alloc s (NewExpressionN e args)"

definition createPropertyAccess :: "heap \<Rightarrow> ref \<Rightarrow> ref \<Rightarrow> heap \<times> ref" where
  "createPropertyAccess s e n = alloc s (PropertyAccessExpressionN e n)"

definition createCall :: "heap \<Rightarrow> ref \<Rightarrow> ref list \<Rightarrow> heap \<times> ref" where
  "createCall s e args = alloc s (CallExpressionN e args)"

subsection \<open>Results\<close>

text \<open>
  \<^verbatim>\<open>throw new Error('Don\'t know what to do with this node: ' + ts.SyntaxKind[node.kind])\<close>
  is the only exception the transformer of loader.ts raises itself; it carries
  the kind of the node.  The earlier rewriter of part_000 appends the node
  itself to the message, which names no kind: that is \<open>UnknownNode\<close>.
\<close>

datatype error = UnsupportedNodeKind SyntaxKind | UnknownNode

text \<open>
  A result is \<open>Some (Inr v)\<close> when the function returns \<open>v\<close>, \<open>Some (Inl e)\<close>
  when it throws \<open>e\<close>, and \<open>None\<close> when the model has no answer: the recursion
  ran out of fuel, or a reference points outside the heap.  Neither happens on
  a finite tree whose references are all allocated, with enough fuel.
\<close>

type_synonym 'a result = "(error + 'a) option"

fun bindR :: "'a result \<Rightarrow> ('a \<Rightarrow> 'b result) \<Rightarrow> 'b result" where
  "bindR None f = None"
| "bindR (Some (Inl e)) f = Some (Inl e)"
| "bindR (Some (Inr v)) f = f v"

section \<open>The rewriters\<close>

subsection \<open>\<^verbatim>\<open>TRIG_FUNCTIONS\<close>\<close>

definition TRIG_FUNCTIONS :: "(string \<times> string) list" where
  "TRIG_FUNCTIONS = [(''sin'', ''sin''), (''cos'', ''cos''), (''tan'', ''tan'')]"

text \<open>
  \<^verbatim>\<open>TRIG_FUNCTIONS\<close> is an object literal, so its prototype is \<^verbatim>\<open>Object.prototype\<close>
  and a property read that finds no own property continues there.  These are
  the members of \<^verbatim>\<open>Object.prototype\<close> whose names the parser stores unchanged
  as \<^verbatim>\<open>escapedText\<close> (a name that starts with two underscores is stored with a
  third one and so never matches a member).
\<close>

definition Object_prototype :: "string list" where
  "Object_prototype =
     [''constructor'', ''toString'', ''toLocaleString'', ''valueOf'',
      ''hasOwnProperty'', ''isPrototypeOf'', ''propertyIsEnumerable'']"

text \<open>
  The property read \<^verbatim>\<open>obj[key]\<close>: an \<^verbatim>\<open>undefined\<close> key is the property name
  \<^verbatim>\<open>"undefined"\<close>, a key that is not a string (an inherited function) is no
  property name of the object, own properties come first, then the prototype;
  \<open>None\<close> is \<^verbatim>\<open>undefined\<close>.
\<close>

definition getProperty :: "(string \<times> string) list \<Rightarrow> jsval option \<Rightarrow> jsval option" where
  "getProperty obj key =
     (case key of
        None \<Rightarrow> None
      | Some (JInherited p) \<Rightarrow> None
      | Some (JString k) \<Rightarrow>
          (case map_of obj k of
             Some v \<Rightarrow> Some (JString v)
           | None \<Rightarrow> if k \<in> set Object_prototype then Some (JInherited k) else None))"

subsection \<open>\<^verbatim>\<open>rewriteCallExpression\<close> (loader.ts, lines 52 to 81)\<close>

text \<open>
  \<^verbatim>\<open>escapedText\<close> of the node when it is an identifier, \<^verbatim>\<open>undefined\<close> otherwise:
  the value of \<^verbatim>\<open>namespace\<close> and of \<^verbatim>\<open>method\<close> after their \<^verbatim>\<open>if\<close>.
\<close>

definition identifierText :: "node \<Rightarrow> jsval option" where
  "identifierText n = (case n of IdentifierN t \<Rightarrow> Some t | _ \<Rightarrow> None)"

text \<open>
  Every \<^verbatim>\<open>break\<close> leaves the \<^verbatim>\<open>switch\<close> for \<^verbatim>\<open>return node\<close>.  \<^verbatim>\<open>if (decimalMethod)\<close>
  holds for every value the property read can give but \<^verbatim>\<open>undefined\<close>: the three
  strings are not empty and an inherited function is truthy.  The new call
  gets the argument list of the old one as it is.
\<close>

definition rewriteCallExpression :: "heap \<Rightarrow> ref \<Rightarrow> (heap \<times> ref) result" where
  "rewriteCallExpression s node =
     (case lookup s node of
        Some (CallExpressionN expression arguments) \<Rightarrow>
          (case lookup s expression of
             None \<Rightarrow> None
           | Some (PropertyAccessExpressionN pe nm) \<Rightarrow>
               (case (lookup s pe, lookup s nm) of
                  (Some pen, Some nmn) \<Rightarrow>
                    (let namespace = identifierText pen in
                     if namespace \<noteq> Some (JString ''Math'') then Some (Inr (s, node))
                     else
                       (let method = identifierText nmn;
                            decimalMethod = getProperty TRIG_FUNCTIONS method
                        in case decimalMethod of
                             Some dm \<Rightarrow>
                               (let (s1, d) = createIdentifier s (JString ''Decimal'');
                                    (s2, m) = createIdentifier s1 dm;
                                    (s3, pa) = createPropertyAccess s2 d m
                                in Some (Inr (createCall s3 pa arguments)))
                           | None \<Rightarrow> Some (Inr (s, node))))
                | _ \<Rightarrow> None)
           | Some _ \<Rightarrow> Some (Inr (s, node)))
      | _ \<Rightarrow> None)"

subsection \<open>\<^verbatim>\<open>ensureFixedPoint\<close> and \<^verbatim>\<open>rewriteBinaryExpression\<close> (loader.ts, lines 11 to 50)\<close>

text \<open>The \<^verbatim>\<open>switch\<close> on \<^verbatim>\<open>operatorToken.kind\<close>; \<open>None\<close> is the \<^verbatim>\<open>default\<close> branch.\<close>

fun operatorMethod :: "Token \<Rightarrow> string option" where
  "operatorMethod SlashToken = Some ''div''"
| "operatorMethod AsteriskToken = Some ''times''"
| "operatorMethod PlusToken = Some ''plus''"
| "operatorMethod MinusToken = Some ''minus''"
| "operatorMethod _ = None"

text \<open>
  The replacement \<^verbatim>\<open>new Decimal(left).operator(right)\<close>; the factory calls
  allocate in the order JavaScript evaluates the nested arguments.
\<close>

definition createDecimalCall :: "heap \<Rightarrow> ref \<Rightarrow> string \<Rightarrow> ref \<Rightarrow> heap \<times> ref" where
  "createDecimalCall s left operator right =
     (let (s1, d) = createIdentifier s (JString ''Decimal'');
          (s2, nw) = createNew s1 d [left];
          (s3, m) = createIdentifier s2 (JString operator);
          (s4, pa) = createPropertyAccess s3 nw m
      in createCall s4 pa [right])"

text \<open>
  The two functions call each other; the first argument is the fuel, spent by
  \<open>ensureFixedPoint\<close>.
\<close>

fun ensureFixedPoint :: "nat \<Rightarrow> heap \<Rightarrow> ref \<Rightarrow> (heap \<times> ref) result"
  and rewriteBinaryExpression :: "nat \<Rightarrow> heap \<Rightarrow> ref \<Rightarrow> (heap \<times> ref) result" where
  "ensureFixedPoint 0 s node = None"
| "ensureFixedPoint (Suc n) s node =
     (case lookup s node of
        None \<Rightarrow> None
      | Some (NumericLiteralN t) \<Rightarrow> Some (Inr (s, node))
      | Some (BinaryExpressionN l tok r) \<Rightarrow> rewriteBinaryExpression n s node
      | Some (CallExpressionN e args) \<Rightarrow> rewriteCallExpression s node
      | Some nd \<Rightarrow> Some (Inl (UnsupportedNodeKind (kind nd))))"
| "rewriteBinaryExpression n s node =
     (case lookup s node of
        Some (BinaryExpressionN left operatorToken right) \<Rightarrow>
          (case operatorMethod operatorToken of
             None \<Rightarrow> Some (Inr (s, node))
           | Some operator \<Rightarrow>
               bindR (ensureFixedPoint n s left) (\<lambda>(s1, left').
               bindR (ensureFixedPoint n s1 right) (\<lambda>(s2, right').
                 Some (Inr (createDecimalCall s2 left' operator right')))))
      | _ \<Rightarrow> None)"

section \<open>The walker: \<^verbatim>\<open>decimalify\<close> (loader.ts, lines 83 to 113)\<close>

text \<open>
  The \<^verbatim>\<open>switch (node.kind)\<close> of lines 88 to 95: the value of \<^verbatim>\<open>expression\<close>
  afterwards, \<open>None\<close> for \<^verbatim>\<open>undefined\<close>.
\<close>

definition applyRewriter :: "nat \<Rightarrow> heap \<Rightarrow> ref \<Rightarrow> (heap \<times> ref option) result" where
  "applyRewriter n s node =
     (case lookup s node of
        None \<Rightarrow> None
      | Some (BinaryExpressionN l tok r) \<Rightarrow>
          bindR (rewriteBinaryExpression n s node) (\<lambda>(s', e). Some (Inr (s', Some e)))
      | Some (CallExpressionN e args) \<Rightarrow>
          bindR (rewriteCallExpression s node) (\<lambda>(s', e). Some (Inr (s', Some e)))
      | Some _ \<Rightarrow> Some (Inr (s, None)))"

text \<open>
  Lines 97 to 105: when \<^verbatim>\<open>expression\<close> is defined and is not \<^verbatim>\<open>node\<close> itself, a
  variable declaration parent gets it as initializer, a call parent gets it as
  its whole argument list, any other parent is left alone.  The output of
  \<^verbatim>\<open>console.log\<close> in line 102 is not part of the model.
\<close>

definition attach :: "heap \<Rightarrow> ref option \<Rightarrow> ref \<Rightarrow> ref \<Rightarrow> heap result" where
  "attach s expression node nodeParent =
     (case lookup s nodeParent of
        None \<Rightarrow> None
      | Some p \<Rightarrow>
          (case expression of
             None \<Rightarrow> Some (Inr s)
           | Some e \<Rightarrow>
               if e \<noteq> node then
                 (case p of
                    VariableDeclarationN nm i \<Rightarrow>
                      Some (Inr (s[nodeParent := VariableDeclarationN nm (Some e)]))
                  | CallExpressionN c args \<Rightarrow>
                      Some (Inr (s[nodeParent := CallExpressionN c [e]]))
                  | _ \<Rightarrow> Some (Inr s))
               else Some (Inr s)))"

text \<open>The body of \<^verbatim>\<open>if (nodeParent) { ... }\<close>, lines 87 to 106.\<close>

definition rewriteAndAttach :: "nat \<Rightarrow> heap \<Rightarrow> ref \<Rightarrow> ref \<Rightarrow> (heap \<times> ref option) result" where
  "rewriteAndAttach n s node nodeParent =
     bindR (applyRewriter n s node) (\<lambda>(s1, expression).
     bindR (attach s1 expression node nodeParent) (\<lambda>s2. Some (Inr (s2, expression))))"

text \<open>\<^verbatim>\<open>let finalNode = expression || node\<close>, line 108.\<close>

definition finalNode :: "ref option \<Rightarrow> ref \<Rightarrow> ref" where
  "finalNode expression node = (case expression of Some e \<Rightarrow> e | None \<Rightarrow> node)"

text \<open>
  The children \<^verbatim>\<open>ts.forEachChild\<close> visits, in its order.  The operator token of
  a binary expression and the end-of-file token of a source file are left out:
  a token has no children and is neither a binary expression nor a call, so
  visiting it changes nothing.
\<close>

fun children :: "node \<Rightarrow> ref list" where
  "children (NumericLiteralN t) = []"
| "children (StringLiteralN t) = []"
| "children (IdentifierN t) = []"
| "children (BinaryExpressionN l tok r) = [l, r]"
| "children (CallExpressionN e args) = e # args"
| "children (PropertyAccessExpressionN e n) = [e, n]"
| "children (NewExpressionN e args) = e # args"
| "children (PrefixUnaryExpressionN tok e) = [e]"
| "children (VariableDeclarationN n i) = n # (case i of None \<Rightarrow> [] | Some e \<Rightarrow> [e])"
| "children (ImportDeclarationN c m) = (case c of None \<Rightarrow> [] | Some e \<Rightarrow> [e]) @ [m]"
| "children (ImportClauseN n b) =
     (case n of None \<Rightarrow> [] | Some e \<Rightarrow> [e]) @ (case b of None \<Rightarrow> [] | Some e \<Rightarrow> [e])"
| "children (SourceFileN ss) = ss"
| "children (OtherN k cs) = cs"

text \<open>
  \<open>decimalifyChild\<close> is the inner function of \<^verbatim>\<open>decimalify\<close>; \<open>forEachChild\<close> is
  \<^verbatim>\<open>ts.forEachChild(finalNode, child => decimalifyChild(child, finalNode))\<close> and
  \<open>visitNodes\<close> its loop over one array of children.  \<^verbatim>\<open>ts.forEachChild\<close> reads
  the fields of the node one after the other, each when its turn comes, and
  loops over the array it has read.  The walker overwrites the \<^verbatim>\<open>arguments\<close> of
  a call and the \<^verbatim>\<open>initializer\<close> of a variable declaration only, so for these
  two kinds the field is read again after the first child has been visited;
  for every other kind the children read at the start are the children
  visited.  The callback returns \<^verbatim>\<open>undefined\<close>, so the loop never stops early.
  The first argument is the fuel, spent by \<open>decimalifyChild\<close>; the rewriter
  gets what is left of it.
\<close>

fun decimalifyChild :: "nat \<Rightarrow> heap \<Rightarrow> ref \<Rightarrow> ref option \<Rightarrow> heap result"
  and forEachChild :: "nat \<Rightarrow> heap \<Rightarrow> ref \<Rightarrow> heap result"
  and visitNodes :: "nat \<Rightarrow> heap \<Rightarrow> ref list \<Rightarrow> ref \<Rightarrow> heap result" where
  "decimalifyChild 0 s node nodeParent = None"
| "decimalifyChild (Suc n) s node nodeParent =
     bindR (case nodeParent of
              None \<Rightarrow> Some (Inr (s, None))
            | Some p \<Rightarrow> rewriteAndAttach n s node p)
       (\<lambda>(s', expression). forEachChild n s' (finalNode expression node))"
| "forEachChild n s fin =
     (case lookup s fin of
        None \<Rightarrow> None
      | Some (CallExpressionN e args) \<Rightarrow>
          bindR (decimalifyChild n s e (Some fin)) (\<lambda>s1.
            case lookup s1 fin of
              Some (CallExpressionN e1 args1) \<Rightarrow> visitNodes n s1 args1 fin
            | _ \<Rightarrow> None)
      | Some (VariableDeclarationN nm i) \<Rightarrow>
          bindR (decimalifyChild n s nm (Some fin)) (\<lambda>s1.
            case lookup s1 fin of
              Some (VariableDeclarationN nm1 i1) \<Rightarrow>
                visitNodes n s1 (case i1 of None \<Rightarrow> [] | Some e \<Rightarrow> [e]) fin
            | _ \<Rightarrow> None)
      | Some nd \<Rightarrow> visitNodes n s (children nd) fin)"
| "visitNodes n s [] fin = Some (Inr s)"
| "visitNodes n s (child # rest) fin =
     bindR (decimalifyChild n s child (Some fin)) (\<lambda>s1. visitNodes n s1 rest fin)"

definition decimalify :: "nat \<Rightarrow> heap \<Rightarrow> ref \<Rightarrow> heap result" where
  "decimalify n s sourceFile = decimalifyChild n s sourceFile None"

section \<open>The import of \<^verbatim>\<open>decimal.js\<close> (loader.ts, lines 115 to 153)\<close>

text \<open>
  The tests of the callback in \<^verbatim>\<open>sourceFileHasDecimalJS\<close>, lines 121 to 132:
  true when the callback reaches \<^verbatim>\<open>importExists = true\<close> for this statement.
  A reference that points outside the heap counts as a test that fails.
\<close>

definition isDecimalImport :: "heap \<Rightarrow> ref \<Rightarrow> bool" where
  "isDecimalImport s node =
     (case lookup s node of
        Some (ImportDeclarationN importClause moduleSpecifier) \<Rightarrow>
          (case lookup s moduleSpecifier of
             Some (StringLiteralN text) \<Rightarrow>
               if text \<noteq> ''decimal.js'' then False
               else
                 (case importClause of
                    None \<Rightarrow> False
                  | Some c \<Rightarrow>
                      (case lookup s c of
                         Some (ImportClauseN name bindings) \<Rightarrow>
                           (case name of
                              None \<Rightarrow> False
                            | Some nm \<Rightarrow>
                                (case lookup s nm of
                                   Some (IdentifierN t) \<Rightarrow> t = JString ''Decimal''
                                 | _ \<Rightarrow> False))
                       | _ \<Rightarrow> False))
           | _ \<Rightarrow> False)
      | _ \<Rightarrow> False)"

text \<open>
  The loop \<^verbatim>\<open>sourceFile.forEachChild\<close> over the statements, with the flag
  \<^verbatim>\<open>importExists\<close>; the callback returns at once when the flag is set.
\<close>

fun forEachStatement :: "heap \<Rightarrow> ref list \<Rightarrow> bool \<Rightarrow> bool" where
  "forEachStatement s [] importExists = importExists"
| "forEachStatement s (node # rest) importExists =
     forEachStatement s rest (if importExists then importExists else isDecimalImport s node)"

definition statements :: "heap \<Rightarrow> ref \<Rightarrow> ref list" where
  "statements s sourceFile =
     (case lookup s sourceFile of Some (SourceFileN ss) \<Rightarrow> ss | _ \<Rightarrow> [])"

definition sourceFileHasDecimalJS :: "heap \<Rightarrow> ref \<Rightarrow> bool" where
  "sourceFileHasDecimalJS s sourceFile = forEachStatement s (statements s sourceFile) False"

definition createImportClause :: "heap \<Rightarrow> ref option \<Rightarrow> ref option \<Rightarrow> heap \<times> ref" where
  "createImportClause s name bindings = alloc s (ImportClauseN name bindings)"

definition createLiteral :: "heap \<Rightarrow> string \<Rightarrow> heap \<times> ref" where
  "createLiteral s text = alloc s (StringLiteralN text)"

definition createImportDeclaration :: "heap \<Rightarrow> ref option \<Rightarrow> ref \<Rightarrow> heap \<times> ref" where
  "createImportDeclaration s importClause moduleSpecifier =
     alloc s (ImportDeclarationN importClause moduleSpecifier)"

text \<open>\<^verbatim>\<open>ts.updateSourceFileNode\<close> returns a new source file node with the given statements.\<close>

definition updateSourceFileNode :: "heap \<Rightarrow> ref \<Rightarrow> ref list \<Rightarrow> heap \<times> ref" where
  "updateSourceFileNode s sourceFile ss = alloc s (SourceFileN ss)"

text \<open>The \<^verbatim>\<open>if (!sourceFileHasDecimalJS(sourceFile)) { ... }\<close> of \<^verbatim>\<open>loader\<close>, lines 143 to 153.\<close>

definition ensureImport :: "heap \<Rightarrow> ref \<Rightarrow> heap \<times> ref" where
  "ensureImport s sourceFile =
     (if \<not> sourceFileHasDecimalJS s sourceFile then
        (let (s1, d) = createIdentifier s (JString ''Decimal'');
             (s2, c) = createImportClause s1 (Some d) None;
             (s3, m) = createLiteral s2 ''decimal.js'';
             (s4, imp) = createImportDeclaration s3 (Some c) m
         in updateSourceFileNode s4 sourceFile (imp # statements s4 sourceFile))
      else (s, sourceFile))"

text \<open>
  \<^verbatim>\<open>loader\<close> between the parser and the printer: the tree handed to the printer,
  or the error of the walk.
\<close>

definition loader :: "nat \<Rightarrow> heap \<Rightarrow> ref \<Rightarrow> (heap \<times> ref) result" where
  "loader n s sourceFile =
     (let (s1, sourceFile1) = ensureImport s sourceFile
      in bindR (decimalify n s1 sourceFile1) (\<lambda>s2. Some (Inr (s2, sourceFile1))))"

section \<open>The earlier rewriter (part_000, lines 5 to 43)\<close>

text \<open>
  The second source file holds an earlier version of the rewriter, for the
  type \<^verbatim>\<open>Big\<close>.  Its \<^verbatim>\<open>rewriteBinaryExpression\<close> has the result type
  \<^verbatim>\<open>ts.Expression|undefined\<close> and its \<^verbatim>\<open>default\<close> branch is a bare \<^verbatim>\<open>return\<close>;
  \<^verbatim>\<open>ensureBig\<close> hands that result on.  The functions carry the suffix \<open>Big\<close>
  where the name is taken.  An argument list \<^verbatim>\<open>[left]\<close> whose element is
  \<^verbatim>\<open>undefined\<close> is no list of nodes: there the model has no answer.
\<close>

fun bigOperator :: "Token \<Rightarrow> string option" where
  "bigOperator SlashToken = Some ''div''"
| "bigOperator AsteriskToken = Some ''times''"
| "bigOperator PlusToken = Some ''plus''"
| "bigOperator MinusToken = Some ''minus''"
| "bigOperator _ = None"

definition createBigCall :: "heap \<Rightarrow> ref \<Rightarrow> string \<Rightarrow> ref \<Rightarrow> heap \<times> ref" where
  "createBigCall s left operator right =
     (let (s1, d) = createIdentifier s (JString ''Big'');
          (s2, nw) = createNew s1 d [left];
          (s3, m) = createIdentifier s2 (JString operator);
          (s4, pa) = createPropertyAccess s3 nw m
      in createCall s4 pa [right])"

fun ensureBig :: "nat \<Rightarrow> heap \<Rightarrow> ref \<Rightarrow> (heap \<times> ref option) result"
  and rewriteBinaryExpressionBig :: "nat \<Rightarrow> heap \<Rightarrow> ref \<Rightarrow> (heap \<times> ref option) result" where
  "ensureBig 0 s node = None"
| "ensureBig (Suc n) s node =
     (case lookup s node of
        None \<Rightarrow> None
      | Some (NumericLiteralN t) \<Rightarrow> Some (Inr (s, Some node))
      | Some (BinaryExpressionN l tok r) \<Rightarrow> rewriteBinaryExpressionBig n s node
      | Some nd \<Rightarrow> Some (Inl UnknownNode))"
| "rewriteBinaryExpressionBig n s node =
     (case lookup s node of
        Some (BinaryExpressionN left operator right) \<Rightarrow>
          (case bigOperator operator of
             None \<Rightarrow> Some (Inr (s, None))
           | Some bigOp \<Rightarrow>
               bindR (ensureBig n s left) (\<lambda>(s1, left').
               bindR (ensureBig n s1 right) (\<lambda>(s2, right').
                 case (left', right') of
                   (Some l, Some r) \<Rightarrow>
                     (let (s3, c) = createBigCall s2 l bigOp r in Some (Inr (s3, Some c)))
                 | _ \<Rightarrow> None)))
      | _ \<Rightarrow> None)"

section \<open>Notions of the specification and example programs\<close>

text \<open>
  The method the specification maps an arithmetic operator to: \<^verbatim>\<open>/\<close> to
  \<^verbatim>\<open>div\<close>, \<^verbatim>\<open>*\<close> to \<^verbatim>\<open>times\<close>, \<^verbatim>\<open>+\<close> to \<^verbatim>\<open>plus\<close>, \<^verbatim>\<open>-\<close> to \<^verbatim>\<open>minus\<close>.
\<close>

definition arithMethod :: "Token \<Rightarrow> string" where
  "arithMethod tok =
     (if tok = SlashToken then ''div'' else if tok = AsteriskToken then ''times''
      else if tok = PlusToken then ''plus'' else ''minus'')"

text \<open>The tree of \<^verbatim>\<open>1 / 2\<close>, at address 2.\<close>

definition divisionTree :: heap where
  "divisionTree =
     [NumericLiteralN ''1'', NumericLiteralN ''2'', BinaryExpressionN 0 SlashToken 1]"

text \<open>
  The statement \<^verbatim>\<open>a < b;\<close>: the comparison at address 2, its parent, the
  expression statement, at address 3.
\<close>

definition comparisonStatement :: heap where
  "comparisonStatement =
     [IdentifierN (JString ''a''), IdentifierN (JString ''b''),
      BinaryExpressionN 0 LessThanToken 1, OtherN ExpressionStatement [2]]"

text \<open>The statement \<^verbatim>\<open>-x;\<close>: the unary expression at address 1, its parent at address 2.\<close>

definition unaryStatement :: heap where
  "unaryStatement =
     [IdentifierN (JString ''x''), PrefixUnaryExpressionN MinusToken 0,
      OtherN ExpressionStatement [1]]"

text \<open>
  The tree the parser builds for \<^verbatim>\<open>(1 + 2) * 3\<close>, at address 5: the left
  operand of \<^verbatim>\<open>*\<close> is the parenthesized expression at address 3, which holds
  the sum.
\<close>

definition parenthesizedProduct :: heap where
  "parenthesizedProduct =
     [NumericLiteralN ''1'', NumericLiteralN ''2'', BinaryExpressionN 0 PlusToken 1,
      OtherN ParenthesizedExpression [2], NumericLiteralN ''3'',
      BinaryExpressionN 3 AsteriskToken 4]"

text \<open>
  The product at address 4 whose left operand is the sum of \<^verbatim>\<open>1\<close> and \<^verbatim>\<open>2\<close>
  itself, with no parenthesized expression between them.
\<close>

definition nestedProduct :: heap where
  "nestedProduct =
     [NumericLiteralN ''1'', NumericLiteralN ''2'', BinaryExpressionN 0 PlusToken 1,
      NumericLiteralN ''3'', BinaryExpressionN 2 AsteriskToken 3]"

text \<open>The call \<^verbatim>\<open>Math.toString()\<close>, at address 3.\<close>

definition toStringCall :: heap where
  "toStringCall =
     [IdentifierN (JString ''Math''), IdentifierN (JString ''toString''),
      PropertyAccessExpressionN 0 1, CallExpressionN 2 []]"

text \<open>
  The program \<^verbatim>\<open>Math.sin(1 + 2);\<close>: the call at address 6, its parent, the
  expression statement, at address 7, the source file at address 8.
\<close>

definition sinStatement :: heap where
  "sinStatement =
     [IdentifierN (JString ''Math''), IdentifierN (JString ''sin''),
      PropertyAccessExpressionN 0 1, NumericLiteralN ''1'', NumericLiteralN ''2'',
      BinaryExpressionN 3 PlusToken 4, CallExpressionN 2 [5],
      OtherN ExpressionStatement [6], SourceFileN [7]]"

text \<open>The nodes \<open>rewriteCallExpression\<close> allocates for that call: \<^verbatim>\<open>Decimal.sin(1 + 2)\<close> at address 12.\<close>

definition sinRewrite :: heap where
  "sinRewrite =
     [IdentifierN (JString ''Decimal''), IdentifierN (JString ''sin''),
      PropertyAccessExpressionN 9 10, CallExpressionN 11 [5]]"

text \<open>
  The program \<^verbatim>\<open>f(1 + 2, 3);\<close>: the sum at address 3, the call at address 5,
  the source file at address 7.
\<close>

definition fCallStatement :: heap where
  "fCallStatement =
     [IdentifierN (JString ''f''), NumericLiteralN ''1'', NumericLiteralN ''2'',
      BinaryExpressionN 1 PlusToken 2, NumericLiteralN ''3'', CallExpressionN 0 [3, 4],
      OtherN ExpressionStatement [5], SourceFileN [6]]"

text \<open>The nodes \<open>rewriteBinaryExpression\<close> allocates for that sum: \<^verbatim>\<open>new Decimal(1).plus(2)\<close> at address 12.\<close>

definition fCallRewrite :: heap where
  "fCallRewrite =
     [IdentifierN (JString ''Decimal''), NewExpressionN 8 [1],
      IdentifierN (JString ''plus''), PropertyAccessExpressionN 9 10,
      CallExpressionN 11 [2]]"

text \<open>No node of the heap holds a reference to an address that is not allocated.\<close>

definition refsClosed :: "heap \<Rightarrow> bool" where
  "refsClosed s = list_all (\<lambda>n. list_all (\<lambda>r. r < length s) (children n)) s"

text \<open>
  The statements of a source file that are imports the check of
  \<^verbatim>\<open>sourceFileHasDecimalJS\<close> recognises: a default import of \<^verbatim>\<open>Decimal\<close> from
  \<^verbatim>\<open>'decimal.js'\<close>.
\<close>

definition decimalImports :: "heap \<Rightarrow> ref \<Rightarrow> ref list" where
  "decimalImports s sourceFile = filter (isDecimalImport s) (statements s sourceFile)"

text \<open>
  The five nodes the loader allocates on the heap \<open>s\<close> when it injects the
  import into a source file with the statements \<open>ss\<close>: the identifier, the import
  clause, the module specifier, the import declaration and the new source
  file.
\<close>

definition importNodes :: "heap \<Rightarrow> ref list \<Rightarrow> heap" where
  "importNodes s ss =
     [IdentifierN (JString ''Decimal''), ImportClauseN (Some (length s)) None,
      StringLiteralN ''decimal.js'',
      ImportDeclarationN (Some (length s + 1)) (length s + 2),
      SourceFileN ((length s + 3) # ss)]"

text \<open>
  The program that holds \<^verbatim>\<open>import Decimal from 'decimal.js';\<close> twice: the
  imports at addresses 3 and 7, the source file at address 8.
\<close>

definition duplicateImports :: heap where
  "duplicateImports =
     [IdentifierN (JString ''Decimal''), ImportClauseN (Some 0) None,
      StringLiteralN ''decimal.js'', ImportDeclarationN (Some 1) 2,
      IdentifierN (JString ''Decimal''), ImportClauseN (Some 4) None,
      StringLiteralN ''decimal.js'', ImportDeclarationN (Some 5) 6,
      SourceFileN [3, 7]]"

text \<open>
  The program
  \<^verbatim>\<open>import React from 'react'; import { Decimal } from 'decimal.js'; import * as Decimal from 'decimal.js';\<close>:
  the default import of another module at address 3, the named import at
  address 9, the namespace import at address 14, the source file at address 15.
\<close>

definition mixedImportProgram :: heap where
  "mixedImportProgram =
     [IdentifierN (JString ''React''), ImportClauseN (Some 0) None,
      StringLiteralN ''react'', ImportDeclarationN (Some 1) 2,
      IdentifierN (JString ''Decimal''), OtherN ImportSpecifier [4], OtherN NamedImports [5],
      ImportClauseN None (Some 6), StringLiteralN ''decimal.js'', ImportDeclarationN (Some 7) 8,
      IdentifierN (JString ''Decimal''), OtherN NamespaceImport [10],
      ImportClauseN None (Some 11), StringLiteralN ''decimal.js'',
      ImportDeclarationN (Some 12) 13,
      SourceFileN [3, 9, 14]]"

text \<open>The tree of \<^verbatim>\<open>'a' + 'b'\<close>, the sum of two string literals, at address 2.\<close>

definition stringSum :: heap where
  "stringSum =
     [StringLiteralN ''a'', StringLiteralN ''b'', BinaryExpressionN 0 PlusToken 1]"

text \<open>The trees of \<^verbatim>\<open>x + 1\<close>, at address 2, and of \<^verbatim>\<open>1 + x\<close>, at address 3.\<close>

definition identifierSums :: heap where
  "identifierSums =
     [IdentifierN (JString ''x''), NumericLiteralN ''1'',
      BinaryExpressionN 0 PlusToken 1, BinaryExpressionN 1 PlusToken 0]"

section \<open>Properties of the rewriters\<close>

lemma lookup_append_old: "r < length s \<Longrightarrow> lookup (s @ t) r = lookup s r"
  by (simp add: lookup_def nth_append)

lemma lookup_Some_less: "lookup s r = Some n \<Longrightarrow> r < length s"
  by (simp add: lookup_def split: if_splits)

lemma ensureFixedPoint_literal:
  "lookup s n = Some (NumericLiteralN t) \<Longrightarrow> ensureFixedPoint (Suc k) s n = Some (Inr (s, n))"
  by simp

lemma operatorMethod_None:
  "tok \<notin> {SlashToken, AsteriskToken, PlusToken, MinusToken} \<Longrightarrow> operatorMethod tok = None"
  by (cases tok) simp_all

lemma bigOperator_None:
  "tok \<notin> {SlashToken, AsteriskToken, PlusToken, MinusToken} \<Longrightarrow> bigOperator tok = None"
  by (cases tok) simp_all

lemma operatorMethod_arith:
  "tok \<in> {SlashToken, AsteriskToken, PlusToken, MinusToken} \<Longrightarrow>
   operatorMethod tok = Some (arithMethod tok)"
  by (auto simp: arithMethod_def)

text \<open>
  On an arithmetic operator \<open>rewriteBinaryExpression\<close> classifies the left
  operand, then the right one on the heap the first classification left, and
  builds the replacement from the two results; an error of either
  classification is the error of the rewrite.
\<close>

lemma rewriteBinaryExpression_arith:
  assumes "lookup s node = Some (BinaryExpressionN l tok r)"
    and "operatorMethod tok = Some m"
  shows "rewriteBinaryExpression k s node =
           bindR (ensureFixedPoint k s l) (\<lambda>(s1, l').
           bindR (ensureFixedPoint k s1 r) (\<lambda>(s2, r').
             Some (Inr (createDecimalCall s2 l' m r'))))"
  using assms by simp

lemma createDecimalCall_eq:
  "createDecimalCall s l m r =
     (s @ [IdentifierN (JString ''Decimal''), NewExpressionN (length s) [l],
           IdentifierN (JString m),
           PropertyAccessExpressionN (length s + 1) (length s + 2),
           CallExpressionN (length s + 3) [r]], length s + 4)"
  by (simp add: createDecimalCall_def createIdentifier_def createNew_def
      createPropertyAccess_def createCall_def alloc_def)

lemma rewriteBinaryExpression_literals:
  assumes "lookup s node = Some (BinaryExpressionN a tok b)"
    and "operatorMethod tok = Some m"
    and "lookup s a = Some (NumericLiteralN ta)"
    and "lookup s b = Some (NumericLiteralN tb)"
  shows "rewriteBinaryExpression (Suc k) s node =
           Some (Inr (s @ [IdentifierN (JString ''Decimal''), NewExpressionN (length s) [a],
                  IdentifierN (JString m),
                  PropertyAccessExpressionN (length s + 1) (length s + 2),
                  CallExpressionN (length s + 3) [b]], length s + 4))"
proof -
  have l: "ensureFixedPoint (Suc k) s a = Some (Inr (s, a))"
    using assms(3) by (rule ensureFixedPoint_literal)
  have r: "ensureFixedPoint (Suc k) s b = Some (Inr (s, b))"
    using assms(4) by (rule ensureFixedPoint_literal)
  show ?thesis
    unfolding rewriteBinaryExpression_arith [OF assms(1) assms(2)]
    by (simp only: l r bindR.simps prod.case createDecimalCall_eq)
qed

lemma ensureFixedPoint_binary:
  "lookup s node = Some (BinaryExpressionN l tok r) \<Longrightarrow>
   ensureFixedPoint (Suc k) s node = rewriteBinaryExpression k s node"
  by simp

lemma ensureFixedPoint_unsupported:
  assumes "lookup s node = Some nd"
    and "kind nd \<notin> {NumericLiteral, BinaryExpression, CallExpression}"
  shows "ensureFixedPoint (Suc k) s node = Some (Inl (UnsupportedNodeKind (kind nd)))"
  using assms by (cases nd) simp_all

lemma rewriteBinaryExpression_default:
  assumes "lookup s node = Some (BinaryExpressionN l tok r)"
    and "tok \<notin> {SlashToken, AsteriskToken, PlusToken, MinusToken}"
  shows "rewriteBinaryExpression k s node = Some (Inr (s, node))"
  using assms by (simp add: operatorMethod_None)

text \<open>
  C3.  For every numeric literal node \<open>n\<close>, \<open>ensureFixedPoint\<close> returns the
  reference \<open>n\<close> itself and the heap as it was, so no node is allocated; and
  classifying the result once more returns the same again.
\<close>

theorem literal_returned_by_reference:
  assumes "lookup s n = Some (NumericLiteralN t)"
  shows "ensureFixedPoint (Suc k) s n = Some (Inr (s, n)) \<and>
         bindR (ensureFixedPoint (Suc k) s n) (\<lambda>(s', n'). ensureFixedPoint (Suc k) s' n')
           = Some (Inr (s, n))"
  using assms by simp

theorem literal_returned_by_reference_witness:
  "lookup divisionTree 0 = Some (NumericLiteralN ''1'') \<and>
   ensureFixedPoint (Suc 0) divisionTree 0 = Some (Inr (divisionTree, 0)) \<and>
   bindR (ensureFixedPoint (Suc 0) divisionTree 0)
     (\<lambda>(s', n'). ensureFixedPoint (Suc 0) s' n') = Some (Inr (divisionTree, 0))"
proof -
  have h: "lookup divisionTree 0 = Some (NumericLiteralN ''1'')"
    by (simp add: lookup_def divisionTree_def)
  from literal_returned_by_reference [OF h, of 0] h show ?thesis by blast
qed

text \<open>
  C2, as the code has it.  The operands of \<^verbatim>\<open>'a' + 'b'\<close> are literals, but the
  classifier accepts no literal other than a numeric one: the rewrite fails
  on the left operand and returns no expression.
\<close>

theorem string_literal_operands_rejected:
  "rewriteBinaryExpression (Suc 0) stringSum 2
     = Some (Inl (UnsupportedNodeKind StringLiteral))"
  by (simp add: lookup_def stringSum_def)

text \<open>
  C2, amended.  Let the operator of a binary node be one of \<^verbatim>\<open>/\<close>, \<^verbatim>\<open>*\<close>,
  \<^verbatim>\<open>+\<close>, \<^verbatim>\<open>-\<close>.  When its operands are the numeric literals \<open>a\<close> and \<open>b\<close>,
  \<open>rewriteBinaryExpression\<close> returns a new call node: its callee is the
  property access that selects the method mapped to the operator on
  \<^verbatim>\<open>new Decimal(a)\<close>, its only argument is \<open>b\<close>, and the old nodes are
  untouched.  Both operands are classified by \<open>ensureFixedPoint\<close> before the
  replacement is built, the left one first and the right one on the heap the
  first classification left: when the classification of the left operand
  fails, or that of the right operand after it, the rewrite fails with the
  same error (so an operand of a kind the classifier does not accept, a string
  literal for one, makes the rewrite fail with \<open>UnsupportedNodeKind\<close> and that
  kind), and when both succeed the replacement is built on the heap of the
  second classification from the two classified operands, not from the
  operands of the node.
\<close>

theorem arithmetic_rewrite_classifies_operands:
  assumes "lookup s node = Some (BinaryExpressionN a tok b)"
    and "tok \<in> {SlashToken, AsteriskToken, PlusToken, MinusToken}"
  shows "(\<forall>ta tb. lookup s a = Some (NumericLiteralN ta) \<and>
                  lookup s b = Some (NumericLiteralN tb) \<longrightarrow>
            rewriteBinaryExpression (Suc k) s node =
              Some (Inr (s @ [IdentifierN (JString ''Decimal''), NewExpressionN (length s) [a],
                     IdentifierN (JString (arithMethod tok)),
                     PropertyAccessExpressionN (length s + 1) (length s + 2),
                     CallExpressionN (length s + 3) [b]], length s + 4))) \<and>
         (\<forall>e. ensureFixedPoint k s a = Some (Inl e) \<longrightarrow>
            rewriteBinaryExpression k s node = Some (Inl e)) \<and>
         (\<forall>s1 a' e. ensureFixedPoint k s a = Some (Inr (s1, a')) \<and>
                    ensureFixedPoint k s1 b = Some (Inl e) \<longrightarrow>
            rewriteBinaryExpression k s node = Some (Inl e)) \<and>
         (\<forall>s1 a' s2 b'. ensureFixedPoint k s a = Some (Inr (s1, a')) \<and>
                        ensureFixedPoint k s1 b = Some (Inr (s2, b')) \<longrightarrow>
            rewriteBinaryExpression k s node =
              Some (Inr (s2 @ [IdentifierN (JString ''Decimal''), NewExpressionN (length s2) [a'],
                     IdentifierN (JString (arithMethod tok)),
                     PropertyAccessExpressionN (length s2 + 1) (length s2 + 2),
                     CallExpressionN (length s2 + 3) [b']], length s2 + 4))) \<and>
         (\<forall>nd. lookup s a = Some nd \<and>
               kind nd \<notin> {NumericLiteral, BinaryExpression, CallExpression} \<longrightarrow>
            rewriteBinaryExpression (Suc k) s node
              = Some (Inl (UnsupportedNodeKind (kind nd)))) \<and>
         (\<forall>ta nd. lookup s a = Some (NumericLiteralN ta) \<and> lookup s b = Some nd \<and>
               kind nd \<notin> {NumericLiteral, BinaryExpression, CallExpression} \<longrightarrow>
            rewriteBinaryExpression (Suc k) s node
              = Some (Inl (UnsupportedNodeKind (kind nd))))"
proof -
  note m = operatorMethod_arith [OF assms(2)]
  note unfold = rewriteBinaryExpression_arith [OF assms(1) m]
  have c1: "rewriteBinaryExpression (Suc k) s node =
              Some (Inr (s @ [IdentifierN (JString ''Decimal''), NewExpressionN (length s) [a],
                     IdentifierN (JString (arithMethod tok)),
                     PropertyAccessExpressionN (length s + 1) (length s + 2),
                     CallExpressionN (length s + 3) [b]], length s + 4))"
    if "lookup s a = Some (NumericLiteralN ta)" and "lookup s b = Some (NumericLiteralN tb)"
    for ta tb
    using assms(1) m that by (rule rewriteBinaryExpression_literals)
  have c2: "rewriteBinaryExpression k s node = Some (Inl e)"
    if "ensureFixedPoint k s a = Some (Inl e)" for e
    by (simp only: unfold that bindR.simps)
  have c3: "rewriteBinaryExpression k s node = Some (Inl e)"
    if "ensureFixedPoint k s a = Some (Inr (s1, a'))"
      and "ensureFixedPoint k s1 b = Some (Inl e)" for s1 a' e
    by (simp only: unfold that bindR.simps prod.case)
  have c4: "rewriteBinaryExpression k s node =
              Some (Inr (s2 @ [IdentifierN (JString ''Decimal''), NewExpressionN (length s2) [a'],
                     IdentifierN (JString (arithMethod tok)),
                     PropertyAccessExpressionN (length s2 + 1) (length s2 + 2),
                     CallExpressionN (length s2 + 3) [b']], length s2 + 4))"
    if "ensureFixedPoint k s a = Some (Inr (s1, a'))"
      and "ensureFixedPoint k s1 b = Some (Inr (s2, b'))" for s1 a' s2 b'
    by (simp only: unfold that bindR.simps prod.case createDecimalCall_eq)
  have c5: "rewriteBinaryExpression (Suc k) s node
              = Some (Inl (UnsupportedNodeKind (kind nd)))"
    if "lookup s a = Some nd"
      and "kind nd \<notin> {NumericLiteral, BinaryExpression, CallExpression}" for nd
  proof -
    have "ensureFixedPoint (Suc k) s a = Some (Inl (UnsupportedNodeKind (kind nd)))"
      using that by (rule ensureFixedPoint_unsupported)
    then show ?thesis
      by (simp only: rewriteBinaryExpression_arith [OF assms(1) m] bindR.simps)
  qed
  have c6: "rewriteBinaryExpression (Suc k) s node
              = Some (Inl (UnsupportedNodeKind (kind nd)))"
    if "lookup s a = Some (NumericLiteralN ta)" and "lookup s b = Some nd"
      and "kind nd \<notin> {NumericLiteral, BinaryExpression, CallExpression}" for ta nd
  proof -
    have l: "ensureFixedPoint (Suc k) s a = Some (Inr (s, a))"
      using that(1) by (rule ensureFixedPoint_literal)
    have "ensureFixedPoint (Suc k) s b = Some (Inl (UnsupportedNodeKind (kind nd)))"
      using that(2,3) by (rule ensureFixedPoint_unsupported)
    then show ?thesis
      by (simp only: rewriteBinaryExpression_arith [OF assms(1) m] l bindR.simps prod.case)
  qed
  from c1 c2 c3 c4 c5 c6 show ?thesis by blast
qed

text \<open>
  The witness: \<^verbatim>\<open>1 / 2\<close> for literal operands; \<^verbatim>\<open>x + 1\<close> and \<^verbatim>\<open>1 + x\<close> for a
  classification that fails, of the left and of the right operand; and the
  product whose left operand is the sum of \<^verbatim>\<open>1\<close> and \<^verbatim>\<open>2\<close>, where the
  classified left operand is the new call at address 9 and not the sum at
  address 2.
\<close>

theorem arithmetic_rewrite_classifies_operands_witness:
  "rewriteBinaryExpression (Suc 0) divisionTree 2 =
     Some (Inr ([NumericLiteralN ''1'', NumericLiteralN ''2'', BinaryExpressionN 0 SlashToken 1,
                 IdentifierN (JString ''Decimal''), NewExpressionN 3 [0],
                 IdentifierN (JString ''div''), PropertyAccessExpressionN 4 5,
                 CallExpressionN 6 [1]], 7)) \<and>
   ensureFixedPoint (Suc 0) identifierSums 0 = Some (Inl (UnsupportedNodeKind Identifier)) \<and>
   rewriteBinaryExpression (Suc 0) identifierSums 2
     = Some (Inl (UnsupportedNodeKind Identifier)) \<and>
   ensureFixedPoint (Suc 0) identifierSums 1 = Some (Inr (identifierSums, 1)) \<and>
   rewriteBinaryExpression (Suc 0) identifierSums 3
     = Some (Inl (UnsupportedNodeKind Identifier)) \<and>
   ensureFixedPoint (Suc (Suc 0)) nestedProduct 2 =
     Some (Inr ([NumericLiteralN ''1'', NumericLiteralN ''2'', BinaryExpressionN 0 PlusToken 1,
                 NumericLiteralN ''3'', BinaryExpressionN 2 AsteriskToken 3,
                 IdentifierN (JString ''Decimal''), NewExpressionN 5 [0],
                 IdentifierN (JString ''plus''), PropertyAccessExpressionN 6 7,
                 CallExpressionN 8 [1]], 9)) \<and>
   rewriteBinaryExpression (Suc (Suc 0)) nestedProduct 4 =
     Some (Inr ([NumericLiteralN ''1'', NumericLiteralN ''2'', BinaryExpressionN 0 PlusToken 1,
                 NumericLiteralN ''3'', BinaryExpressionN 2 AsteriskToken 3,
                 IdentifierN (JString ''Decimal''), NewExpressionN 5 [0],
                 IdentifierN (JString ''plus''), PropertyAccessExpressionN 6 7,
                 CallExpressionN 8 [1],
                 IdentifierN (JString ''Decimal''), NewExpressionN 10 [9],
                 IdentifierN (JString ''times''), PropertyAccessExpressionN 11 12,
                 CallExpressionN 13 [3]], 14))"
proof -
  let ?inner = "[NumericLiteralN ''1'', NumericLiteralN ''2'', BinaryExpressionN 0 PlusToken 1,
                 NumericLiteralN ''3'', BinaryExpressionN 2 AsteriskToken 3,
                 IdentifierN (JString ''Decimal''), NewExpressionN 5 [0],
                 IdentifierN (JString ''plus''), PropertyAccessExpressionN 6 7,
                 CallExpressionN 8 [1]]"
  have d1: "lookup divisionTree 2 = Some (BinaryExpressionN 0 SlashToken 1)"
    by (simp add: lookup_def divisionTree_def)
  have d2: "SlashToken \<in> {SlashToken, AsteriskToken, PlusToken, MinusToken}"
    by simp
  have d3: "lookup divisionTree 0 = Some (NumericLiteralN ''1'') \<and>
            lookup divisionTree 1 = Some (NumericLiteralN ''2'')"
    by (simp add: lookup_def divisionTree_def)
  have w1: "rewriteBinaryExpression (Suc 0) divisionTree 2 =
     Some (Inr ([NumericLiteralN ''1'', NumericLiteralN ''2'', BinaryExpressionN 0 SlashToken 1,
                 IdentifierN (JString ''Decimal''), NewExpressionN 3 [0],
                 IdentifierN (JString ''div''), PropertyAccessExpressionN 4 5,
                 CallExpressionN 6 [1]], 7))"
    using arithmetic_rewrite_classifies_operands
      [OF d1 d2, of 0, THEN conjunct1, rule_format, OF d3]
    by (simp add: divisionTree_def arithMethod_def)
  have p: "PlusToken \<in> {SlashToken, AsteriskToken, PlusToken, MinusToken}"
    by simp
  have i2: "lookup identifierSums 2 = Some (BinaryExpressionN 0 PlusToken 1)"
    by (simp add: lookup_def identifierSums_def)
  have i3: "lookup identifierSums 3 = Some (BinaryExpressionN 1 PlusToken 0)"
    by (simp add: lookup_def identifierSums_def)
  have e0: "ensureFixedPoint (Suc 0) identifierSums 0
              = Some (Inl (UnsupportedNodeKind Identifier))"
    by (simp add: lookup_def identifierSums_def)
  have e1: "ensureFixedPoint (Suc 0) identifierSums 1 = Some (Inr (identifierSums, 1))"
    by (simp add: lookup_def identifierSums_def)
  have w2: "rewriteBinaryExpression (Suc 0) identifierSums 2
              = Some (Inl (UnsupportedNodeKind Identifier))"
    using arithmetic_rewrite_classifies_operands
      [OF i2 p, of "Suc 0", THEN conjunct2, THEN conjunct1, rule_format, OF e0] .
  have w3: "rewriteBinaryExpression (Suc 0) identifierSums 3
              = Some (Inl (UnsupportedNodeKind Identifier))"
    using arithmetic_rewrite_classifies_operands
      [OF i3 p, of "Suc 0", THEN conjunct2, THEN conjunct2, THEN conjunct1, rule_format,
        OF conjI [OF e1 e0]] .
  have k0: "lookup identifierSums 0 = Some (IdentifierN (JString ''x'')) \<and>
            kind (IdentifierN (JString ''x''))
              \<notin> {NumericLiteral, BinaryExpression, CallExpression}"
    by (simp add: lookup_def identifierSums_def)
  have w5: "rewriteBinaryExpression (Suc 0) identifierSums 2
              = Some (Inl (UnsupportedNodeKind Identifier))"
    using arithmetic_rewrite_classifies_operands
      [OF i2 p, of 0, THEN conjunct2, THEN conjunct2, THEN conjunct2, THEN conjunct2,
        THEN conjunct1, rule_format, OF k0]
    by simp
  have k1: "lookup identifierSums 1 = Some (NumericLiteralN ''1'') \<and>
            lookup identifierSums 0 = Some (IdentifierN (JString ''x'')) \<and>
            kind (IdentifierN (JString ''x''))
              \<notin> {NumericLiteral, BinaryExpression, CallExpression}"
    by (simp add: lookup_def identifierSums_def)
  have w6: "rewriteBinaryExpression (Suc 0) identifierSums 3
              = Some (Inl (UnsupportedNodeKind Identifier))"
    using arithmetic_rewrite_classifies_operands
      [OF i3 p, of 0, THEN conjunct2, THEN conjunct2, THEN conjunct2, THEN conjunct2,
        THEN conjunct2, rule_format, OF k1]
    by simp
  have n4: "lookup nestedProduct 4 = Some (BinaryExpressionN 2 AsteriskToken 3)"
    by (simp add: lookup_def nestedProduct_def)
  have a: "AsteriskToken \<in> {SlashToken, AsteriskToken, PlusToken, MinusToken}"
    by simp
  have f1: "ensureFixedPoint (Suc (Suc 0)) nestedProduct 2 = Some (Inr (?inner, 9))"
    by (simp add: lookup_def nestedProduct_def createDecimalCall_eq)
  have f2: "ensureFixedPoint (Suc (Suc 0)) ?inner 3 = Some (Inr (?inner, 3))"
    by (simp add: lookup_def)
  have w4: "rewriteBinaryExpression (Suc (Suc 0)) nestedProduct 4 =
     Some (Inr (?inner @
                [IdentifierN (JString ''Decimal''), NewExpressionN 10 [9],
                 IdentifierN (JString ''times''), PropertyAccessExpressionN 11 12,
                 CallExpressionN 13 [3]], 14))"
    using arithmetic_rewrite_classifies_operands
      [OF n4 a, of "Suc (Suc 0)", THEN conjunct2, THEN conjunct2, THEN conjunct2,
        THEN conjunct1, rule_format, OF conjI [OF f1 f2]]
    by (simp add: arithMethod_def)
  from w1 e0 w2 e1 w3 w5 w6 f1 w4 show ?thesis by simp
qed

text \<open>
  C8, as the code has it.  The parser keeps the parentheses of
  \<^verbatim>\<open>(1 + 2) * 3\<close> as a node of their own, and \<open>ensureFixedPoint\<close> knows no
  parenthesized expression: classifying the product fails on its left operand.
\<close>

theorem parenthesized_operand_rejected:
  "ensureFixedPoint (Suc (Suc (Suc 0))) parenthesizedProduct 5 =
     Some (Inl (UnsupportedNodeKind (Other ParenthesizedExpression)))"
  by (simp add: lookup_def parenthesizedProduct_def)

text \<open>
  C8, amended.  When the left operand of the product is the sum node itself,
  the sum of the literals \<open>a\<close> and \<open>b\<close>, strict classification wraps twice: the
  result is the call of \<^verbatim>\<open>times\<close> with argument \<open>c\<close> on a \<^verbatim>\<open>new Decimal\<close> whose
  only argument is the complete call \<^verbatim>\<open>new Decimal(a).plus(b)\<close>, five nodes for
  each level.
\<close>

theorem nested_tree_two_levels:
  assumes "lookup s node = Some (BinaryExpressionN l AsteriskToken c)"
    and "lookup s l = Some (BinaryExpressionN a PlusToken b)"
    and "lookup s a = Some (NumericLiteralN ta)"
    and "lookup s b = Some (NumericLiteralN tb)"
    and "lookup s c = Some (NumericLiteralN tc)"
  shows "ensureFixedPoint (Suc (Suc (Suc k))) s node =
           Some (Inr (s @ [IdentifierN (JString ''Decimal''), NewExpressionN (length s) [a],
                  IdentifierN (JString ''plus''),
                  PropertyAccessExpressionN (length s + 1) (length s + 2),
                  CallExpressionN (length s + 3) [b],
                  IdentifierN (JString ''Decimal''), NewExpressionN (length s + 5) [length s + 4],
                  IdentifierN (JString ''times''),
                  PropertyAccessExpressionN (length s + 6) (length s + 7),
                  CallExpressionN (length s + 8) [c]], length s + 9))"
proof -
  let ?inner = "[IdentifierN (JString ''Decimal''), NewExpressionN (length s) [a],
                  IdentifierN (JString ''plus''),
                  PropertyAccessExpressionN (length s + 1) (length s + 2),
                  CallExpressionN (length s + 3) [b]]"
  have inner: "ensureFixedPoint (Suc (Suc k)) s l = Some (Inr (s @ ?inner, length s + 4))"
    unfolding ensureFixedPoint_binary [OF assms(2)]
    using assms(2) _ assms(3) assms(4) by (rule rewriteBinaryExpression_literals) simp
  have "lookup (s @ ?inner) c = Some (NumericLiteralN tc)"
    using assms(5) lookup_Some_less [OF assms(5)] by (simp add: lookup_append_old)
  then have right: "ensureFixedPoint (Suc (Suc k)) (s @ ?inner) c = Some (Inr (s @ ?inner, c))"
    by (rule ensureFixedPoint_literal)
  have "ensureFixedPoint (Suc (Suc (Suc k))) s node = rewriteBinaryExpression (Suc (Suc k)) s node"
    using assms(1) by (rule ensureFixedPoint_binary)
  also have "\<dots> = Some (Inr (createDecimalCall (s @ ?inner) (length s + 4) ''times'' c))"
    unfolding rewriteBinaryExpression_arith [OF assms(1) operatorMethod.simps(2)]
    by (simp only: inner right bindR.simps prod.case)
  finally show ?thesis
    by (simp add: createDecimalCall_eq)
qed

theorem nested_tree_two_levels_witness:
  "lookup nestedProduct 4 = Some (BinaryExpressionN 2 AsteriskToken 3) \<and>
   lookup nestedProduct 2 = Some (BinaryExpressionN 0 PlusToken 1) \<and>
   lookup nestedProduct 0 = Some (NumericLiteralN ''1'') \<and>
   lookup nestedProduct 1 = Some (NumericLiteralN ''2'') \<and>
   lookup nestedProduct 3 = Some (NumericLiteralN ''3'') \<and>
   ensureFixedPoint (Suc (Suc (Suc 0))) nestedProduct 4 =
     Some (Inr ([NumericLiteralN ''1'', NumericLiteralN ''2'', BinaryExpressionN 0 PlusToken 1,
                 NumericLiteralN ''3'', BinaryExpressionN 2 AsteriskToken 3,
                 IdentifierN (JString ''Decimal''), NewExpressionN 5 [0],
                 IdentifierN (JString ''plus''), PropertyAccessExpressionN 6 7,
                 CallExpressionN 8 [1],
                 IdentifierN (JString ''Decimal''), NewExpressionN 10 [9],
                 IdentifierN (JString ''times''), PropertyAccessExpressionN 11 12,
                 CallExpressionN 13 [3]], 14))"
proof -
  have h1: "lookup nestedProduct 4 = Some (BinaryExpressionN 2 AsteriskToken 3)"
    by (simp add: lookup_def nestedProduct_def)
  have h2: "lookup nestedProduct 2 = Some (BinaryExpressionN 0 PlusToken 1)"
    by (simp add: lookup_def nestedProduct_def)
  have h3: "lookup nestedProduct 0 = Some (NumericLiteralN ''1'')"
    by (simp add: lookup_def nestedProduct_def)
  have h4: "lookup nestedProduct 1 = Some (NumericLiteralN ''2'')"
    by (simp add: lookup_def nestedProduct_def)
  have h5: "lookup nestedProduct 3 = Some (NumericLiteralN ''3'')"
    by (simp add: lookup_def nestedProduct_def)
  have "ensureFixedPoint (Suc (Suc (Suc 0))) nestedProduct 4 =
     Some (Inr ([NumericLiteralN ''1'', NumericLiteralN ''2'', BinaryExpressionN 0 PlusToken 1,
                 NumericLiteralN ''3'', BinaryExpressionN 2 AsteriskToken 3,
                 IdentifierN (JString ''Decimal''), NewExpressionN 5 [0],
                 IdentifierN (JString ''plus''), PropertyAccessExpressionN 6 7,
                 CallExpressionN 8 [1],
                 IdentifierN (JString ''Decimal''), NewExpressionN 10 [9],
                 IdentifierN (JString ''times''), PropertyAccessExpressionN 11 12,
                 CallExpressionN 13 [3]], 14))"
    using nested_tree_two_levels [OF h1 h2 h3 h4 h5, of 0]
    by (simp add: nestedProduct_def)
  with h1 h2 h3 h4 h5 show ?thesis by blast
qed

text \<open>
  C5, as the code has it.  The earlier \<^verbatim>\<open>rewriteBinaryExpression\<close> of part_000
  does not return the node on an operator it does not know: its \<^verbatim>\<open>default\<close>
  branch returns \<^verbatim>\<open>undefined\<close>.
\<close>

theorem earlier_rewriter_returns_undefined:
  "rewriteBinaryExpressionBig (Suc 0) comparisonStatement 2
     = Some (Inr (comparisonStatement, None)) \<and>
   rewriteBinaryExpressionBig (Suc 0) comparisonStatement 2
     \<noteq> Some (Inr (comparisonStatement, Some 2))"
  by (simp add: lookup_def comparisonStatement_def)

text \<open>
  C5, amended.  On a binary expression whose operator is none of \<^verbatim>\<open>/\<close>, \<^verbatim>\<open>*\<close>,
  \<^verbatim>\<open>+\<close>, \<^verbatim>\<open>-\<close> neither version rewrites or fails, and neither classifies an
  operand: the result does not depend on the operands or on the fuel, and the
  heap is as before.  \<^verbatim>\<open>rewriteBinaryExpression\<close> of loader.ts returns the node
  itself, that of part_000 returns \<^verbatim>\<open>undefined\<close>.
\<close>

theorem unknown_operator_no_rewrite:
  assumes "lookup s node = Some (BinaryExpressionN l tok r)"
    and "tok \<notin> {SlashToken, AsteriskToken, PlusToken, MinusToken}"
  shows "rewriteBinaryExpression k s node = Some (Inr (s, node)) \<and>
         rewriteBinaryExpressionBig k s node = Some (Inr (s, None))"
  using assms by (simp add: operatorMethod_None bigOperator_None)

text \<open>
  In the witness the operands are identifiers, which \<open>ensureFixedPoint\<close>
  rejects: had an operand been classified, the rewrite would have failed.
\<close>

theorem unknown_operator_no_rewrite_witness:
  "lookup comparisonStatement 2 = Some (BinaryExpressionN 0 LessThanToken 1) \<and>
   LessThanToken \<notin> {SlashToken, AsteriskToken, PlusToken, MinusToken} \<and>
   ensureFixedPoint (Suc 0) comparisonStatement 0 = Some (Inl (UnsupportedNodeKind Identifier)) \<and>
   rewriteBinaryExpression 0 comparisonStatement 2 = Some (Inr (comparisonStatement, 2)) \<and>
   rewriteBinaryExpressionBig 0 comparisonStatement 2 = Some (Inr (comparisonStatement, None))"
proof -
  have h1: "lookup comparisonStatement 2 = Some (BinaryExpressionN 0 LessThanToken 1)"
    by (simp add: lookup_def comparisonStatement_def)
  have h2: "LessThanToken \<notin> {SlashToken, AsteriskToken, PlusToken, MinusToken}"
    by simp
  have h3: "ensureFixedPoint (Suc 0) comparisonStatement 0
              = Some (Inl (UnsupportedNodeKind Identifier))"
    by (simp add: lookup_def comparisonStatement_def)
  from unknown_operator_no_rewrite [OF h1 h2, of 0] h1 h2 h3 show ?thesis by blast
qed

text \<open>
  C4, at the failing input \<^verbatim>\<open>Math.toString()\<close>.  \<^verbatim>\<open>toString\<close> is not in the
  allowlist, but \<^verbatim>\<open>TRIG_FUNCTIONS['toString']\<close> is the function inherited from
  \<^verbatim>\<open>Object.prototype\<close>, which is truthy: the call is rewritten to a new call
  on \<^verbatim>\<open>Decimal\<close> whose method name is that function, not returned unchanged.
\<close>

theorem inherited_method_rewritten:
  "rewriteCallExpression toStringCall 3 =
     Some (Inr (toStringCall @
        [IdentifierN (JString ''Decimal''), IdentifierN (JInherited ''toString''),
         PropertyAccessExpressionN 4 5, CallExpressionN 6 []], 7)) \<and>
   rewriteCallExpression toStringCall 3 \<noteq> Some (Inr (toStringCall, 3))"
  by (simp add: rewriteCallExpression_def lookup_def toStringCall_def identifierText_def
      getProperty_def TRIG_FUNCTIONS_def Object_prototype_def createIdentifier_def
      createPropertyAccess_def createCall_def alloc_def)

text \<open>What does hold of \<open>rewriteCallExpression\<close> on a call \<^verbatim>\<open>ns.m(args)\<close>.\<close>

lemma rewriteCallExpression_trig:
  assumes "lookup s node = Some (CallExpressionN e args)"
    and "lookup s e = Some (PropertyAccessExpressionN ns nm)"
    and "lookup s ns = Some (IdentifierN (JString ''Math''))"
    and "lookup s nm = Some (IdentifierN (JString m))"
    and "m \<in> {''sin'', ''cos'', ''tan''}"
  shows "rewriteCallExpression s node =
           Some (Inr (s @ [IdentifierN (JString ''Decimal''), IdentifierN (JString m),
                  PropertyAccessExpressionN (length s) (length s + 1),
                  CallExpressionN (length s + 2) args], length s + 3))"
  using assms
  by (auto simp: rewriteCallExpression_def identifierText_def getProperty_def
      TRIG_FUNCTIONS_def createIdentifier_def createPropertyAccess_def createCall_def alloc_def)

lemma rewriteCallExpression_other_namespace:
  assumes "lookup s node = Some (CallExpressionN e args)"
    and "lookup s e = Some (PropertyAccessExpressionN ns nm)"
    and "lookup s ns = Some nsn" and "lookup s nm = Some nmn"
    and "nsn \<noteq> IdentifierN (JString ''Math'')"
  shows "rewriteCallExpression s node = Some (Inr (s, node))"
  using assms
  by (cases nsn) (simp_all add: rewriteCallExpression_def identifierText_def)

lemma rewriteCallExpression_other_method:
  assumes "lookup s node = Some (CallExpressionN e args)"
    and "lookup s e = Some (PropertyAccessExpressionN ns nm)"
    and "lookup s ns = Some (IdentifierN (JString ''Math''))"
    and "lookup s nm = Some (IdentifierN (JString m))"
    and "m \<notin> {''sin'', ''cos'', ''tan''}"
    and "m \<notin> set Object_prototype"
  shows "rewriteCallExpression s node = Some (Inr (s, node))"
  using assms
  by (simp add: rewriteCallExpression_def identifierText_def getProperty_def
      TRIG_FUNCTIONS_def)

lemma rewriteCallExpression_other_callee:
  assumes "lookup s node = Some (CallExpressionN e args)"
    and "lookup s e = Some en"
    and "kind en \<noteq> PropertyAccessExpression"
  shows "rewriteCallExpression s node = Some (Inr (s, node))"
  using assms by (cases en) (simp_all add: rewriteCallExpression_def)


section \<open>Properties of the walker\<close>

lemma applyRewriter_other:
  assumes "lookup s node = Some nd"
    and "kind nd \<noteq> BinaryExpression" and "kind nd \<noteq> CallExpression"
  shows "applyRewriter k s node = Some (Inr (s, None))"
  using assms by (cases nd) (simp_all add: applyRewriter_def)

lemma attach_undefined:
  "lookup s parent = Some p \<Longrightarrow> attach s None node parent = Some (Inr s)"
  by (simp add: attach_def)

lemma attach_same:
  "lookup s parent = Some p \<Longrightarrow> attach s (Some node) node parent = Some (Inr s)"
  by (simp add: attach_def)

lemma attach_other_parent:
  assumes "lookup s parent = Some p"
    and "kind p \<noteq> VariableDeclaration" and "kind p \<noteq> CallExpression"
  shows "attach s expression node parent = Some (Inr s)"
  using assms by (cases p) (simp_all add: attach_def split: option.splits)

text \<open>
  C1, as the code has it.  A comparison is a binary expression, so the strict
  classifier hands it to \<open>rewriteBinaryExpression\<close>, whose \<^verbatim>\<open>default\<close> branch
  returns it: \<open>ensureFixedPoint\<close> does not fail on \<^verbatim>\<open>a < b\<close>.
\<close>

theorem comparison_not_rejected:
  "ensureFixedPoint (Suc 0) comparisonStatement 2 = Some (Inr (comparisonStatement, 2)) \<and>
   ensureFixedPoint (Suc 0) comparisonStatement 2
     \<noteq> Some (Inl (UnsupportedNodeKind BinaryExpression))"
  by (simp add: lookup_def comparisonStatement_def)

text \<open>
  C1, amended.  On a node that is neither a numeric literal nor a binary
  expression nor a call, a unary expression for one, \<open>ensureFixedPoint\<close> fails
  with \<open>UnsupportedNodeKind\<close> and the kind of the node; on a binary expression
  whose operator is none of \<^verbatim>\<open>/\<close>, \<^verbatim>\<open>*\<close>, \<^verbatim>\<open>+\<close>, \<^verbatim>\<open>-\<close>, a comparison for one, it
  returns the node and the heap unchanged.  The walker's rule application
  leaves both alone under any parent: no error, the heap as before, and
  \<^verbatim>\<open>expression\<close> either \<^verbatim>\<open>undefined\<close> or the node itself, so nothing is attached.
\<close>

theorem strict_classifier_and_walker:
  assumes "lookup s node = Some nd" and "lookup s parent = Some p"
  shows "(kind nd \<notin> {NumericLiteral, BinaryExpression, CallExpression} \<longrightarrow>
            ensureFixedPoint (Suc k) s node = Some (Inl (UnsupportedNodeKind (kind nd))) \<and>
            rewriteAndAttach k s node parent = Some (Inr (s, None))) \<and>
         (\<forall>l tok r. nd = BinaryExpressionN l tok r \<and>
              tok \<notin> {SlashToken, AsteriskToken, PlusToken, MinusToken} \<longrightarrow>
            ensureFixedPoint (Suc k) s node = Some (Inr (s, node)) \<and>
            rewriteAndAttach k s node parent = Some (Inr (s, Some node)))"
proof (intro conjI impI allI)
  assume a: "kind nd \<notin> {NumericLiteral, BinaryExpression, CallExpression}"
  show "ensureFixedPoint (Suc k) s node = Some (Inl (UnsupportedNodeKind (kind nd)))"
    using assms(1) a by (rule ensureFixedPoint_unsupported)
  have "applyRewriter k s node = Some (Inr (s, None))"
    using assms(1) a by (intro applyRewriter_other) auto
  then show "rewriteAndAttach k s node parent = Some (Inr (s, None))"
    by (simp add: rewriteAndAttach_def attach_undefined [OF assms(2)])
next
  fix l tok r
  assume a: "nd = BinaryExpressionN l tok r \<and>
             tok \<notin> {SlashToken, AsteriskToken, PlusToken, MinusToken}"
  then have b: "lookup s node = Some (BinaryExpressionN l tok r)"
    and t: "tok \<notin> {SlashToken, AsteriskToken, PlusToken, MinusToken}"
    using assms(1) by simp_all
  have rw: "rewriteBinaryExpression k s node = Some (Inr (s, node))"
    using b t by (rule rewriteBinaryExpression_default)
  show "ensureFixedPoint (Suc k) s node = Some (Inr (s, node))"
    using b rw by (simp only: ensureFixedPoint_binary)
  have "applyRewriter k s node = Some (Inr (s, Some node))"
    using b rw by (simp add: applyRewriter_def)
  then show "rewriteAndAttach k s node parent = Some (Inr (s, Some node))"
    by (simp add: rewriteAndAttach_def attach_same [OF assms(2)])
qed

theorem strict_classifier_and_walker_witness:
  "ensureFixedPoint (Suc 0) unaryStatement 1
     = Some (Inl (UnsupportedNodeKind PrefixUnaryExpression)) \<and>
   rewriteAndAttach 0 unaryStatement 1 2 = Some (Inr (unaryStatement, None)) \<and>
   ensureFixedPoint (Suc 0) comparisonStatement 2 = Some (Inr (comparisonStatement, 2)) \<and>
   rewriteAndAttach 0 comparisonStatement 2 3 = Some (Inr (comparisonStatement, Some 2))"
proof -
  have u1: "lookup unaryStatement 1 = Some (PrefixUnaryExpressionN MinusToken 0)"
    by (simp add: lookup_def unaryStatement_def)
  have u2: "lookup unaryStatement 2 = Some (OtherN ExpressionStatement [1])"
    by (simp add: lookup_def unaryStatement_def)
  have c1: "lookup comparisonStatement 2 = Some (BinaryExpressionN 0 LessThanToken 1)"
    by (simp add: lookup_def comparisonStatement_def)
  have c2: "lookup comparisonStatement 3 = Some (OtherN ExpressionStatement [2])"
    by (simp add: lookup_def comparisonStatement_def)
  have "ensureFixedPoint (Suc 0) unaryStatement 1
          = Some (Inl (UnsupportedNodeKind PrefixUnaryExpression)) \<and>
        rewriteAndAttach 0 unaryStatement 1 2 = Some (Inr (unaryStatement, None))"
    using strict_classifier_and_walker [OF u1 u2, of 0] by simp
  moreover have "ensureFixedPoint (Suc 0) comparisonStatement 2
          = Some (Inr (comparisonStatement, 2)) \<and>
        rewriteAndAttach 0 comparisonStatement 2 3 = Some (Inr (comparisonStatement, Some 2))"
    using strict_classifier_and_walker [OF c1 c2, of 0] by simp
  ultimately show ?thesis by blast
qed

subsection \<open>The rewriters only allocate\<close>

lemma rewriteCallExpression_extends:
  "rewriteCallExpression s r = Some (Inr (s', r')) \<Longrightarrow> \<exists>t. s' = s @ t"
  by (auto simp: rewriteCallExpression_def createIdentifier_def createPropertyAccess_def
      createCall_def alloc_def Let_def
      split: option.splits node.splits if_splits)

lemma bindR_Inr:
  assumes "bindR m f = Some (Inr v)"
  shows "\<exists>u. m = Some (Inr u) \<and> f u = Some (Inr v)"
proof (cases m)
  case None
  with assms show ?thesis by simp
next
  case (Some x)
  with assms show ?thesis by (cases x) simp_all
qed

lemma rewriters_extend:
  shows "ensureFixedPoint n s r = Some (Inr (s', r')) \<Longrightarrow> \<exists>t. s' = s @ t"
    and "rewriteBinaryExpression n s r = Some (Inr (s', r')) \<Longrightarrow> \<exists>t. s' = s @ t"
proof (induction n s r and n s r arbitrary: s' r' and s' r'
    rule: ensureFixedPoint_rewriteBinaryExpression.induct)
  case (1 s node)
  then show ?case by simp
next
  case (2 n s node)
  show ?case
  proof (cases "lookup s node")
    case None
    with "2.prems" show ?thesis by simp
  next
    case (Some nd)
    show ?thesis
    proof (cases nd)
      case (BinaryExpressionN l tok rr)
      with Some "2.prems" have "rewriteBinaryExpression n s node = Some (Inr (s', r'))"
        by simp
      with "2.IH" Some BinaryExpressionN show ?thesis by blast
    next
      case (CallExpressionN e args)
      with Some "2.prems" have "rewriteCallExpression s node = Some (Inr (s', r'))"
        by simp
      then show ?thesis by (rule rewriteCallExpression_extends)
    qed (use Some "2.prems" in simp_all)
  qed
next
  case (3 n s node)
  show ?case
  proof (cases "lookup s node")
    case None
    with "3.prems" show ?thesis by simp
  next
    case (Some nd)
    show ?thesis
    proof (cases nd)
      case (BinaryExpressionN l tok rr)
      show ?thesis
      proof (cases "operatorMethod tok")
        case None
        with Some BinaryExpressionN "3.prems" show ?thesis by simp
      next
        case m: (Some m)
        note look = \<open>lookup s node = Some nd\<close> [unfolded BinaryExpressionN]
        from "3.prems" have b: "bindR (ensureFixedPoint n s l) (\<lambda>(s1, l').
             bindR (ensureFixedPoint n s1 rr) (\<lambda>(s2, r'').
               Some (Inr (createDecimalCall s2 l' m r'')))) = Some (Inr (s', r'))"
          by (simp only: rewriteBinaryExpression_arith [OF look m])
        from bindR_Inr [OF b] obtain s1 l' where
          e1: "ensureFixedPoint n s l = Some (Inr (s1, l'))" and
          b2: "bindR (ensureFixedPoint n s1 rr) (\<lambda>(s2, r'').
               Some (Inr (createDecimalCall s2 l' m r''))) = Some (Inr (s', r'))"
          by auto
        from bindR_Inr [OF b2] obtain s2 r'' where
          e2: "ensureFixedPoint n s1 rr = Some (Inr (s2, r''))" and
          c: "createDecimalCall s2 l' m r'' = (s', r')"
          by auto
        from "3.IH"(1) [OF Some BinaryExpressionN m e1] obtain t1 where t1: "s1 = s @ t1"
          by blast
        from "3.IH"(2) [OF Some BinaryExpressionN m] e1 e2 obtain t2 where t2: "s2 = s1 @ t2"
          by fastforce
        from c t1 t2 show ?thesis by (auto simp: createDecimalCall_eq)
      qed
    qed (use Some "3.prems" in simp_all)
  qed
qed

lemma applyRewriter_extends:
  assumes "applyRewriter n s node = Some (Inr (s1, e))"
  shows "\<exists>t. s1 = s @ t"
proof (cases "lookup s node")
  case None
  with assms show ?thesis by (simp add: applyRewriter_def)
next
  case (Some nd)
  show ?thesis
  proof (cases nd)
    case (BinaryExpressionN l tok r)
    with Some assms
    have "bindR (rewriteBinaryExpression n s node) (\<lambda>(s', e). Some (Inr (s', Some e)))
        = Some (Inr (s1, e))"
      by (simp add: applyRewriter_def)
    from bindR_Inr [OF this] obtain e'
      where "rewriteBinaryExpression n s node = Some (Inr (s1, e'))"
      by auto
    then show ?thesis by (rule rewriters_extend(2))
  next
    case (CallExpressionN c args)
    with Some assms
    have "bindR (rewriteCallExpression s node) (\<lambda>(s', e). Some (Inr (s', Some e)))
        = Some (Inr (s1, e))"
      by (simp add: applyRewriter_def)
    from bindR_Inr [OF this] obtain e'
      where "rewriteCallExpression s node = Some (Inr (s1, e'))"
      by auto
    then show ?thesis by (rule rewriteCallExpression_extends)
  qed (use Some assms in \<open>simp_all add: applyRewriter_def\<close>)
qed

subsection \<open>Attaching a rewrite\<close>

text \<open>
  C6, as the code has it, on \<^verbatim>\<open>Math.sin(1 + 2);\<close>.  The parent of the call is an
  expression statement, so the rewrite \<^verbatim>\<open>Decimal.sin(1 + 2)\<close> at address 12 is
  not attached.  The walk goes on in the children of that rewrite, not in
  those of the call at address 6, and the two differ: at the end the argument
  list of the rewrite holds the rewritten sum (address 17), the argument list
  of the call in the tree still holds the sum (address 5).
\<close>

theorem discarded_rewrite_children_walked:
  "decimalifyChild 10 sinStatement 6 (Some 7) = forEachChild 9 (sinStatement @ sinRewrite) 12 \<and>
   forEachChild 9 (sinStatement @ sinRewrite) 12 \<noteq> forEachChild 9 (sinStatement @ sinRewrite) 6 \<and>
   decimalify 12 sinStatement 8 =
     Some (Inr [IdentifierN (JString ''Math''), IdentifierN (JString ''sin''),
        PropertyAccessExpressionN 0 1, NumericLiteralN ''1'', NumericLiteralN ''2'',
        BinaryExpressionN 3 PlusToken 4, CallExpressionN 2 [5],
        OtherN ExpressionStatement [6], SourceFileN [7],
        IdentifierN (JString ''Decimal''), IdentifierN (JString ''sin''),
        PropertyAccessExpressionN 9 10, CallExpressionN 11 [17],
        IdentifierN (JString ''Decimal''), NewExpressionN 13 [3],
        IdentifierN (JString ''plus''), PropertyAccessExpressionN 14 15,
        CallExpressionN 16 [4]])"
proof -
  have "decimalifyChild 10 sinStatement 6 (Some 7)
          = forEachChild 9 (sinStatement @ sinRewrite) 12"
    by code_simp
  moreover have "forEachChild 9 (sinStatement @ sinRewrite) 12
          \<noteq> forEachChild 9 (sinStatement @ sinRewrite) 6"
    by code_simp
  moreover have "decimalify 12 sinStatement 8 =
     Some (Inr [IdentifierN (JString ''Math''), IdentifierN (JString ''sin''),
        PropertyAccessExpressionN 0 1, NumericLiteralN ''1'', NumericLiteralN ''2'',
        BinaryExpressionN 3 PlusToken 4, CallExpressionN 2 [5],
        OtherN ExpressionStatement [6], SourceFileN [7],
        IdentifierN (JString ''Decimal''), IdentifierN (JString ''sin''),
        PropertyAccessExpressionN 9 10, CallExpressionN 11 [17],
        IdentifierN (JString ''Decimal''), NewExpressionN 13 [3],
        IdentifierN (JString ''plus''), PropertyAccessExpressionN 14 15,
        CallExpressionN 16 [4]])"
    by code_simp
  ultimately show ?thesis by blast
qed

text \<open>
  C6, amended.  When the walker has computed a rewrite \<open>e\<close> for a node whose
  parent is neither a variable declaration nor a call, the rewrite is not
  attached: the heap after the step is the heap the rewriter returned, in which
  every node of the tree is as before.  The walk then goes on in the children
  of the rewrite \<open>e\<close>, with \<open>e\<close> as their parent.
\<close>

theorem unattached_rewrite_is_walked:
  assumes "lookup s parent = Some p"
    and "kind p \<noteq> VariableDeclaration" and "kind p \<noteq> CallExpression"
    and "applyRewriter n s node = Some (Inr (s1, Some e))"
  shows "rewriteAndAttach n s node parent = Some (Inr (s1, Some e)) \<and>
         take (length s) s1 = s \<and>
         decimalifyChild (Suc n) s node (Some parent) = forEachChild n s1 e"
proof -
  from assms(4) obtain t where t: "s1 = s @ t"
    using applyRewriter_extends by blast
  have "lookup s1 parent = Some p"
    using assms(1) lookup_Some_less [OF assms(1)] by (simp add: t lookup_append_old)
  then have a: "attach s1 (Some e) node parent = Some (Inr s1)"
    using assms(2,3) by (rule attach_other_parent)
  have r: "rewriteAndAttach n s node parent = Some (Inr (s1, Some e))"
    by (simp add: rewriteAndAttach_def assms(4) a)
  have "decimalifyChild (Suc n) s node (Some parent) = forEachChild n s1 e"
    by (simp add: r finalNode_def del: forEachChild.simps)
  with r t show ?thesis by simp
qed

theorem unattached_rewrite_is_walked_witness:
  "lookup sinStatement 7 = Some (OtherN ExpressionStatement [6]) \<and>
   kind (OtherN ExpressionStatement [6]) \<noteq> VariableDeclaration \<and>
   kind (OtherN ExpressionStatement [6]) \<noteq> CallExpression \<and>
   applyRewriter 9 sinStatement 6 = Some (Inr (sinStatement @ sinRewrite, Some 12)) \<and>
   rewriteAndAttach 9 sinStatement 6 7 = Some (Inr (sinStatement @ sinRewrite, Some 12)) \<and>
   take (length sinStatement) (sinStatement @ sinRewrite) = sinStatement \<and>
   decimalifyChild (Suc 9) sinStatement 6 (Some 7)
     = forEachChild 9 (sinStatement @ sinRewrite) 12"
proof -
  have h1: "lookup sinStatement 7 = Some (OtherN ExpressionStatement [6])"
    by (simp add: lookup_def sinStatement_def)
  have h2: "kind (OtherN ExpressionStatement [6]) \<noteq> VariableDeclaration"
    by simp
  have h3: "kind (OtherN ExpressionStatement [6]) \<noteq> CallExpression"
    by simp
  have h4: "applyRewriter 9 sinStatement 6 = Some (Inr (sinStatement @ sinRewrite, Some 12))"
    by code_simp
  from unattached_rewrite_is_walked [OF h1 h2 h3 h4] h1 h2 h3 h4 show ?thesis by blast
qed

text \<open>
  C9.  When the walker has computed a rewrite \<open>e\<close>, another node than the one it
  visits, and the parent is a call, the step overwrites the argument list of
  the parent with the one-element list \<open>[e]\<close>, whatever arguments the call had:
  the other arguments are gone and the call has one argument.
\<close>

theorem call_parent_arguments_replaced:
  assumes "lookup s parent = Some (CallExpressionN c args)"
    and "applyRewriter n s node = Some (Inr (s1, Some e))"
    and "e \<noteq> node"
  shows "rewriteAndAttach n s node parent
           = Some (Inr (s1[parent := CallExpressionN c [e]], Some e)) \<and>
         lookup (s1[parent := CallExpressionN c [e]]) parent = Some (CallExpressionN c [e])"
proof -
  from assms(2) obtain t where t: "s1 = s @ t"
    using applyRewriter_extends by blast
  have l: "lookup s1 parent = Some (CallExpressionN c args)"
    using assms(1) lookup_Some_less [OF assms(1)] by (simp add: t lookup_append_old)
  then have a: "attach s1 (Some e) node parent = Some (Inr (s1[parent := CallExpressionN c [e]]))"
    using assms(3) by (simp add: attach_def)
  have "rewriteAndAttach n s node parent
           = Some (Inr (s1[parent := CallExpressionN c [e]], Some e))"
    by (simp add: rewriteAndAttach_def assms(2) a)
  moreover have "lookup (s1[parent := CallExpressionN c [e]]) parent = Some (CallExpressionN c [e])"
    using lookup_Some_less [OF l] by (simp add: lookup_def)
  ultimately show ?thesis by blast
qed

text \<open>
  The witness is \<^verbatim>\<open>f(1 + 2, 3);\<close>: the call has two arguments, the first is
  rewritten, and after the step, as after the whole walk, the call at address 5
  has the single argument at address 12.
\<close>

theorem call_parent_arguments_replaced_witness:
  "lookup fCallStatement 5 = Some (CallExpressionN 0 [3, 4]) \<and>
   applyRewriter 9 fCallStatement 3 = Some (Inr (fCallStatement @ fCallRewrite, Some 12)) \<and>
   (12 :: nat) \<noteq> 3 \<and>
   rewriteAndAttach 9 fCallStatement 3 5
     = Some (Inr ((fCallStatement @ fCallRewrite)[5 := CallExpressionN 0 [12]], Some 12)) \<and>
   lookup ((fCallStatement @ fCallRewrite)[5 := CallExpressionN 0 [12]]) 5
     = Some (CallExpressionN 0 [12]) \<and>
   decimalify 12 fCallStatement 7 =
     Some (Inr [IdentifierN (JString ''f''), NumericLiteralN ''1'', NumericLiteralN ''2'',
        BinaryExpressionN 1 PlusToken 2, NumericLiteralN ''3'', CallExpressionN 0 [12],
        OtherN ExpressionStatement [5], SourceFileN [6],
        IdentifierN (JString ''Decimal''), NewExpressionN 8 [1],
        IdentifierN (JString ''plus''), PropertyAccessExpressionN 9 10,
        CallExpressionN 11 [2]])"
proof -
  have h1: "lookup fCallStatement 5 = Some (CallExpressionN 0 [3, 4])"
    by (simp add: lookup_def fCallStatement_def)
  have h2: "applyRewriter 9 fCallStatement 3
              = Some (Inr (fCallStatement @ fCallRewrite, Some 12))"
    by code_simp
  have h3: "(12 :: nat) \<noteq> 3"
    by simp
  have h4: "decimalify 12 fCallStatement 7 =
     Some (Inr [IdentifierN (JString ''f''), NumericLiteralN ''1'', NumericLiteralN ''2'',
        BinaryExpressionN 1 PlusToken 2, NumericLiteralN ''3'', CallExpressionN 0 [12],
        OtherN ExpressionStatement [5], SourceFileN [6],
        IdentifierN (JString ''Decimal''), NewExpressionN 8 [1],
        IdentifierN (JString ''plus''), PropertyAccessExpressionN 9 10,
        CallExpressionN 11 [2]])"
    by code_simp
  from call_parent_arguments_replaced [OF h1 h2 h3] h1 h2 h3 h4 show ?thesis by blast
qed


section \<open>Properties of the import step\<close>

lemma forEachStatement_iff:
  "forEachStatement s ss b = (b \<or> (\<exists>r\<in>set ss. isDecimalImport s r))"
  by (induction ss arbitrary: b) auto

lemma sourceFileHasDecimalJS_iff:
  "sourceFileHasDecimalJS s sf = (\<exists>r\<in>set (statements s sf). isDecimalImport s r)"
  by (simp add: sourceFileHasDecimalJS_def forEachStatement_iff)

lemma statements_SourceFile:
  "lookup s sf = Some (SourceFileN ss) \<Longrightarrow> statements s sf = ss"
  by (simp add: statements_def)

lemma ensureImport_present:
  "sourceFileHasDecimalJS s sf \<Longrightarrow> ensureImport s sf = (s, sf)"
  by (simp add: ensureImport_def)

lemma ensureImport_absent:
  assumes "\<not> sourceFileHasDecimalJS s sf" and "lookup s sf = Some (SourceFileN ss)"
  shows "ensureImport s sf = (s @ importNodes s ss, length s + 4)"
proof -
  have "lookup (s @ [IdentifierN (JString ''Decimal''), ImportClauseN (Some (length s)) None,
      StringLiteralN ''decimal.js'',
      ImportDeclarationN (Some (length s + 1)) (length s + 2)]) sf = Some (SourceFileN ss)"
    using assms(2) lookup_Some_less [OF assms(2)] by (simp add: lookup_append_old)
  then show ?thesis
    using assms(1)
    by (simp add: ensureImport_def createIdentifier_def createImportClause_def
        createLiteral_def createImportDeclaration_def updateSourceFileNode_def alloc_def
        statements_def importNodes_def)
qed

lemma isDecimalImport_new: "isDecimalImport (s @ importNodes s ss) (length s + 3)"
  by (simp add: isDecimalImport_def importNodes_def lookup_def nth_append)

lemma statements_new: "statements (s @ importNodes s ss) (length s + 4) = (length s + 3) # ss"
  by (simp add: statements_def importNodes_def lookup_def nth_append)

lemma refsClosed_children:
  assumes "refsClosed s" and "lookup s r = Some nd" and "c \<in> set (children nd)"
  shows "c < length s"
proof -
  from assms(2) have "nd \<in> set s"
    by (auto simp: lookup_def split: if_splits)
  with assms(1,3) show ?thesis
    by (auto simp: refsClosed_def list_all_iff)
qed

lemma lookup_append_Some: "lookup s r = Some n \<Longrightarrow> lookup (s @ t) r = Some n"
  by (simp add: lookup_def nth_append split: if_splits)

lemma isDecimalImport_iff:
  "isDecimalImport s stmt \<longleftrightarrow>
     (\<exists>c m nm b.
        lookup s stmt = Some (ImportDeclarationN (Some c) m) \<and>
        lookup s m = Some (StringLiteralN ''decimal.js'') \<and>
        lookup s c = Some (ImportClauseN (Some nm) b) \<and>
        lookup s nm = Some (IdentifierN (JString ''Decimal'')))"
  (is "?L \<longleftrightarrow> ?R")
proof
  assume ?R
  then show ?L by (auto simp: isDecimalImport_def)
next
  assume l: ?L
  then obtain nd where nd: "lookup s stmt = Some nd"
    by (cases "lookup s stmt") (simp_all add: isDecimalImport_def)
  from l nd obtain ic m where d: "nd = ImportDeclarationN ic m"
    by (cases nd) (simp_all add: isDecimalImport_def)
  note l1 = l [unfolded isDecimalImport_def nd d, simplified]
  from l1 obtain mn where mn: "lookup s m = Some mn"
    by (cases "lookup s m") simp_all
  from l1 mn obtain lit where tx: "mn = StringLiteralN lit"
    by (cases mn) simp_all
  note l2 = l1 [unfolded mn tx, simplified]
  from l2 have spec: "lit = ''decimal.js''"
    by (simp split: if_splits)
  from l2 spec obtain c where c: "ic = Some c"
    by (cases ic) simp_all
  note l3 = l2 [unfolded spec c, simplified]
  from l3 obtain cn where cn: "lookup s c = Some cn"
    by (cases "lookup s c") simp_all
  from l3 cn obtain nmo b where cl: "cn = ImportClauseN nmo b"
    by (cases cn) simp_all
  note l4 = l3 [unfolded cn cl, simplified]
  from l4 obtain nm where nm: "nmo = Some nm"
    by (cases nmo) simp_all
  note l5 = l4 [unfolded nm, simplified]
  from l5 obtain nn where nn: "lookup s nm = Some nn"
    by (cases "lookup s nm") simp_all
  from l5 nn have "nn = IdentifierN (JString ''Decimal'')"
    by (cases nn) simp_all
  with nd d mn tx spec c cn cl nm nn show ?R by simp
qed

lemma isDecimalImport_append:
  assumes "refsClosed s" and "r < length s"
  shows "isDecimalImport (s @ t) r = isDecimalImport s r"
proof
  assume "isDecimalImport s r"
  then show "isDecimalImport (s @ t) r"
    unfolding isDecimalImport_iff by (blast intro: lookup_append_Some)
next
  assume "isDecimalImport (s @ t) r"
  then obtain c m nm b where
    1: "lookup (s @ t) r = Some (ImportDeclarationN (Some c) m)" and
    2: "lookup (s @ t) m = Some (StringLiteralN ''decimal.js'')" and
    3: "lookup (s @ t) c = Some (ImportClauseN (Some nm) b)" and
    4: "lookup (s @ t) nm = Some (IdentifierN (JString ''Decimal''))"
    unfolding isDecimalImport_iff by blast
  from 1 assms(2) have 1: "lookup s r = Some (ImportDeclarationN (Some c) m)"
    by (simp add: lookup_append_old)
  have "c < length s" "m < length s"
    using refsClosed_children [OF assms(1) 1] by simp_all
  with 2 3 have 2: "lookup s m = Some (StringLiteralN ''decimal.js'')"
    and 3: "lookup s c = Some (ImportClauseN (Some nm) b)"
    by (simp_all add: lookup_append_old)
  have "nm < length s"
    using refsClosed_children [OF assms(1) 3] by simp
  with 4 have "lookup s nm = Some (IdentifierN (JString ''Decimal''))"
    by (simp add: lookup_append_old)
  with 1 2 3 show "isDecimalImport s r"
    unfolding isDecimalImport_iff by blast
qed

text \<open>
  C7, as the code has it.  The step only asks whether an import exists.  A
  program that holds the import twice is returned as it is, with both.
\<close>

theorem duplicate_imports_kept:
  "ensureImport duplicateImports 8 = (duplicateImports, 8) \<and>
   length (decimalImports duplicateImports 8) = 2"
  by (simp add: ensureImport_def sourceFileHasDecimalJS_def decimalImports_def statements_def
      isDecimalImport_def lookup_def duplicateImports_def)

text \<open>
  C7, amended.  After the step the program holds at least one default import of
  \<^verbatim>\<open>Decimal\<close> from \<^verbatim>\<open>'decimal.js'\<close>: exactly one when it held at most one before,
  and as many as before otherwise.  Running the step again changes nothing.
  No node of the old tree is changed; when the import was missing, the new
  source file has the new import first and then the old statements in their
  order, and when it was there, the program is returned as it is.
\<close>

theorem import_ensured:
  assumes "refsClosed s" and "lookup s sf = Some (SourceFileN ss)"
  shows "length (decimalImports (fst (ensureImport s sf)) (snd (ensureImport s sf)))
           = max 1 (length (decimalImports s sf)) \<and>
         ensureImport (fst (ensureImport s sf)) (snd (ensureImport s sf)) = ensureImport s sf \<and>
         take (length s) (fst (ensureImport s sf)) = s \<and>
         (if sourceFileHasDecimalJS s sf then ensureImport s sf = (s, sf)
          else statements (fst (ensureImport s sf)) (snd (ensureImport s sf))
                 = (length s + 3) # ss \<and>
               isDecimalImport (fst (ensureImport s sf)) (length s + 3))"
proof (cases "sourceFileHasDecimalJS s sf")
  case True
  then have e: "ensureImport s sf = (s, sf)"
    by (rule ensureImport_present)
  from True have "decimalImports s sf \<noteq> []"
    by (auto simp: sourceFileHasDecimalJS_iff decimalImports_def filter_empty_conv)
  then have "max 1 (length (decimalImports s sf)) = length (decimalImports s sf)"
    by (cases "decimalImports s sf") simp_all
  with True e show ?thesis by simp
next
  case False
  let ?s' = "s @ importNodes s ss"
  have e: "ensureImport s sf = (?s', length s + 4)"
    using False assms(2) by (rule ensureImport_absent)
  have old: "\<not> isDecimalImport ?s' r" if "r \<in> set ss" for r
  proof -
    have "r < length s"
      using refsClosed_children [OF assms(1) assms(2)] that by simp
    then have "isDecimalImport ?s' r = isDecimalImport s r"
      using assms(1) by (intro isDecimalImport_append)
    with False that show ?thesis
      by (auto simp: sourceFileHasDecimalJS_iff statements_SourceFile [OF assms(2)])
  qed
  have "filter (isDecimalImport ?s') ss = []"
    using old by (simp add: filter_empty_conv)
  then have n: "decimalImports ?s' (length s + 4) = [length s + 3]"
    by (simp add: decimalImports_def statements_new isDecimalImport_new)
  from False have z: "decimalImports s sf = []"
    by (auto simp: sourceFileHasDecimalJS_iff decimalImports_def filter_empty_conv)
  have "sourceFileHasDecimalJS ?s' (length s + 4)"
    by (simp add: sourceFileHasDecimalJS_iff statements_new isDecimalImport_new)
  then have i: "ensureImport ?s' (length s + 4) = (?s', length s + 4)"
    by (rule ensureImport_present)
  show ?thesis
    using False by (simp add: e n z i statements_new isDecimalImport_new)
qed

theorem import_ensured_witness:
  "refsClosed sinStatement \<and> lookup sinStatement 8 = Some (SourceFileN [7]) \<and>
   refsClosed duplicateImports \<and> lookup duplicateImports 8 = Some (SourceFileN [3, 7]) \<and>
   length (decimalImports sinStatement 8) = 0 \<and>
   length (decimalImports (fst (ensureImport sinStatement 8)) (snd (ensureImport sinStatement 8)))
     = 1 \<and>
   ensureImport (fst (ensureImport sinStatement 8)) (snd (ensureImport sinStatement 8))
     = ensureImport sinStatement 8 \<and>
   statements (fst (ensureImport sinStatement 8)) (snd (ensureImport sinStatement 8)) = [12, 7] \<and>
   isDecimalImport (fst (ensureImport sinStatement 8)) 12 \<and>
   length (decimalImports (fst (ensureImport duplicateImports 8))
     (snd (ensureImport duplicateImports 8))) = 2 \<and>
   ensureImport duplicateImports 8 = (duplicateImports, 8)"
proof -
  have h1: "refsClosed sinStatement"
    by (simp add: refsClosed_def sinStatement_def)
  have h2: "lookup sinStatement 8 = Some (SourceFileN [7])"
    by (simp add: lookup_def sinStatement_def)
  have h3: "refsClosed duplicateImports"
    by (simp add: refsClosed_def duplicateImports_def)
  have h4: "lookup duplicateImports 8 = Some (SourceFileN [3, 7])"
    by (simp add: lookup_def duplicateImports_def)
  have a: "\<not> sourceFileHasDecimalJS sinStatement 8"
    by (simp add: sourceFileHasDecimalJS_def statements_def isDecimalImport_def lookup_def
        sinStatement_def)
  have b: "length (decimalImports sinStatement 8) = 0"
    by (simp add: decimalImports_def statements_def isDecimalImport_def lookup_def
        sinStatement_def)
  have c: "sourceFileHasDecimalJS duplicateImports 8"
    by (simp add: sourceFileHasDecimalJS_def statements_def isDecimalImport_def lookup_def
        duplicateImports_def)
  have d: "length (decimalImports duplicateImports 8) = 2"
    by (simp add: decimalImports_def statements_def isDecimalImport_def lookup_def
        duplicateImports_def)
  have l: "length sinStatement + 3 = 12"
    by (simp add: sinStatement_def)
  from import_ensured [OF h1 h2] a b l
  have "length (decimalImports (fst (ensureImport sinStatement 8))
           (snd (ensureImport sinStatement 8))) = 1 \<and>
     ensureImport (fst (ensureImport sinStatement 8)) (snd (ensureImport sinStatement 8))
       = ensureImport sinStatement 8 \<and>
     statements (fst (ensureImport sinStatement 8)) (snd (ensureImport sinStatement 8)) = [12, 7] \<and>
     isDecimalImport (fst (ensureImport sinStatement 8)) 12"
    by simp
  moreover from import_ensured [OF h3 h4] c d
  have "length (decimalImports (fst (ensureImport duplicateImports 8))
          (snd (ensureImport duplicateImports 8))) = 2 \<and>
        ensureImport duplicateImports 8 = (duplicateImports, 8)"
    by simp
  ultimately show ?thesis using h1 h2 h3 h4 b by blast
qed

text \<open>
  C10.  The check \<open>sourceFileHasDecimalJS\<close> holds exactly when some statement
  is an import declaration whose module specifier is the string literal
  \<^verbatim>\<open>'decimal.js'\<close> and whose import clause has a name, the default import, that
  is the identifier \<^verbatim>\<open>Decimal\<close>.  An import declaration whose import clause has
  no name, a named or a namespace import, is no such statement, whatever it
  binds.  So when no statement of the program is a default import of
  \<^verbatim>\<open>Decimal\<close> from \<^verbatim>\<open>'decimal.js'\<close>, whatever else the program imports, the check
  fails and the loader allocates a default import of \<^verbatim>\<open>Decimal\<close> and a source
  file that has it before the old statements.
\<close>

theorem default_import_only:
  assumes "lookup s sf = Some (SourceFileN ss)"
  shows "(sourceFileHasDecimalJS s sf \<longleftrightarrow>
            (\<exists>stmt\<in>set ss. \<exists>c m nm b.
               lookup s stmt = Some (ImportDeclarationN (Some c) m) \<and>
               lookup s m = Some (StringLiteralN ''decimal.js'') \<and>
               lookup s c = Some (ImportClauseN (Some nm) b) \<and>
               lookup s nm = Some (IdentifierN (JString ''Decimal'')))) \<and>
         (\<forall>stmt c m b. lookup s stmt = Some (ImportDeclarationN (Some c) m) \<and>
               lookup s c = Some (ImportClauseN None b) \<longrightarrow>
            \<not> isDecimalImport s stmt) \<and>
         ((\<forall>stmt\<in>set ss. \<not> (\<exists>c m nm b.
               lookup s stmt = Some (ImportDeclarationN (Some c) m) \<and>
               lookup s m = Some (StringLiteralN ''decimal.js'') \<and>
               lookup s c = Some (ImportClauseN (Some nm) b) \<and>
               lookup s nm = Some (IdentifierN (JString ''Decimal'')))) \<longrightarrow>
            \<not> sourceFileHasDecimalJS s sf \<and>
            ensureImport s sf = (s @ importNodes s ss, length s + 4) \<and>
            statements (s @ importNodes s ss) (length s + 4) = (length s + 3) # ss \<and>
            isDecimalImport (s @ importNodes s ss) (length s + 3))"
proof -
  have first: "sourceFileHasDecimalJS s sf \<longleftrightarrow>
            (\<exists>stmt\<in>set ss. \<exists>c m nm b.
               lookup s stmt = Some (ImportDeclarationN (Some c) m) \<and>
               lookup s m = Some (StringLiteralN ''decimal.js'') \<and>
               lookup s c = Some (ImportClauseN (Some nm) b) \<and>
               lookup s nm = Some (IdentifierN (JString ''Decimal'')))"
    by (simp only: sourceFileHasDecimalJS_iff statements_SourceFile [OF assms] isDecimalImport_iff)
  have named: "\<not> isDecimalImport s stmt"
    if "lookup s stmt = Some (ImportDeclarationN (Some c) m) \<and>
        lookup s c = Some (ImportClauseN None b)" for stmt c m b
    using that unfolding isDecimalImport_iff by auto
  have second: "\<not> sourceFileHasDecimalJS s sf \<and>
            ensureImport s sf = (s @ importNodes s ss, length s + 4) \<and>
            statements (s @ importNodes s ss) (length s + 4) = (length s + 3) # ss \<and>
            isDecimalImport (s @ importNodes s ss) (length s + 3)"
    if h: "\<forall>stmt\<in>set ss. \<not> (\<exists>c m nm b.
               lookup s stmt = Some (ImportDeclarationN (Some c) m) \<and>
               lookup s m = Some (StringLiteralN ''decimal.js'') \<and>
               lookup s c = Some (ImportClauseN (Some nm) b) \<and>
               lookup s nm = Some (IdentifierN (JString ''Decimal'')))"
  proof -
    have no: "\<not> sourceFileHasDecimalJS s sf"
      unfolding first using h by blast
    then have "ensureImport s sf = (s @ importNodes s ss, length s + 4)"
      using assms by (rule ensureImport_absent)
    with no show ?thesis
      by (simp add: statements_new isDecimalImport_new)
  qed
  from first named second show ?thesis by blast
qed

text \<open>
  The witness uses the program with the two default imports for the first
  part.  For the others it uses the program that has a default import of
  another module and binds \<^verbatim>\<open>Decimal\<close> by a named import and by a namespace
  import: there the loader hands to the printer a source file with three
  imports that bind \<^verbatim>\<open>Decimal\<close>.
\<close>

theorem default_import_only_witness:
  "lookup duplicateImports 8 = Some (SourceFileN [3, 7]) \<and>
   lookup mixedImportProgram 15 = Some (SourceFileN [3, 9, 14]) \<and>
   sourceFileHasDecimalJS duplicateImports 8 \<and>
   \<not> isDecimalImport mixedImportProgram 9 \<and>
   \<not> isDecimalImport mixedImportProgram 14 \<and>
   \<not> sourceFileHasDecimalJS mixedImportProgram 15 \<and>
   ensureImport mixedImportProgram 15
     = (mixedImportProgram @ importNodes mixedImportProgram [3, 9, 14], 20) \<and>
   statements (mixedImportProgram @ importNodes mixedImportProgram [3, 9, 14]) 20
     = [19, 3, 9, 14] \<and>
   isDecimalImport (mixedImportProgram @ importNodes mixedImportProgram [3, 9, 14]) 19 \<and>
   loader 12 mixedImportProgram 15
     = Some (Inr (mixedImportProgram @ importNodes mixedImportProgram [3, 9, 14], 20))"
proof -
  have d: "lookup duplicateImports 8 = Some (SourceFileN [3, 7])"
    by (simp add: lookup_def duplicateImports_def)
  have n: "lookup mixedImportProgram 15 = Some (SourceFileN [3, 9, 14])"
    by (simp add: lookup_def mixedImportProgram_def)
  have "\<exists>stmt\<in>set [3, 7]. \<exists>c m nm b.
          lookup duplicateImports stmt = Some (ImportDeclarationN (Some c) m) \<and>
          lookup duplicateImports m = Some (StringLiteralN ''decimal.js'') \<and>
          lookup duplicateImports c = Some (ImportClauseN (Some nm) b) \<and>
          lookup duplicateImports nm = Some (IdentifierN (JString ''Decimal''))"
    by (rule bexI [of _ 3]) (simp_all add: lookup_def duplicateImports_def)
  with default_import_only [OF d] have a: "sourceFileHasDecimalJS duplicateImports 8"
    by blast
  have named: "lookup mixedImportProgram 9 = Some (ImportDeclarationN (Some 7) 8) \<and>
               lookup mixedImportProgram 7 = Some (ImportClauseN None (Some 6))"
    by (simp add: lookup_def mixedImportProgram_def)
  have namespace: "lookup mixedImportProgram 14 = Some (ImportDeclarationN (Some 12) 13) \<and>
               lookup mixedImportProgram 12 = Some (ImportClauseN None (Some 11))"
    by (simp add: lookup_def mixedImportProgram_def)
  note second = default_import_only [OF n, THEN conjunct2]
  have i9: "\<not> isDecimalImport mixedImportProgram 9"
    using second [THEN conjunct1, rule_format, OF named] .
  have i14: "\<not> isDecimalImport mixedImportProgram 14"
    using second [THEN conjunct1, rule_format, OF namespace] .
  have i3: "\<not> isDecimalImport mixedImportProgram 3"
    by (simp add: isDecimalImport_def lookup_def mixedImportProgram_def)
  have h: "\<forall>stmt\<in>set [3, 9, 14]. \<not> (\<exists>c m nm b.
               lookup mixedImportProgram stmt = Some (ImportDeclarationN (Some c) m) \<and>
               lookup mixedImportProgram m = Some (StringLiteralN ''decimal.js'') \<and>
               lookup mixedImportProgram c = Some (ImportClauseN (Some nm) b) \<and>
               lookup mixedImportProgram nm = Some (IdentifierN (JString ''Decimal'')))"
    unfolding isDecimalImport_iff [symmetric] using i3 i9 i14 by simp
  have l: "length mixedImportProgram = 16"
    by (simp add: mixedImportProgram_def)
  from second [THEN conjunct2, THEN mp, OF h]
  have b: "\<not> sourceFileHasDecimalJS mixedImportProgram 15 \<and>
     ensureImport mixedImportProgram 15
       = (mixedImportProgram @ importNodes mixedImportProgram [3, 9, 14], 20) \<and>
     statements (mixedImportProgram @ importNodes mixedImportProgram [3, 9, 14]) 20
       = [19, 3, 9, 14] \<and>
     isDecimalImport (mixedImportProgram @ importNodes mixedImportProgram [3, 9, 14]) 19"
    by (simp add: l)
  have c: "loader 12 mixedImportProgram 15
     = Some (Inr (mixedImportProgram @ importNodes mixedImportProgram [3, 9, 14], 20))"
    by code_simp
  from d n a i9 i14 b c show ?thesis by blast
qed

end
